theory Spec2Isabelle
  imports Complex_Main
begin

section \<open>Python strings\<close>

text \<open>
  A Python \<open>str\<close> is a sequence of Unicode code points. A code point is a natural
  number, a string a list of them; \<open>ustr\<close> embeds an ASCII literal.
\<close>

type_synonym pychar = nat
type_synonym pystr = "pychar list"

definition ustr :: "string \<Rightarrow> pystr" where
  "ustr s = map of_char s"

text \<open>
  \<open>str.isalnum\<close> on one character. Below U+0100 the table is written out (ASCII digits
  and letters, and the letters, superscript digits and vulgar fractions of Latin-1: the
  characters of the Unicode categories L* and N*). Above, the answer is that of
  Python's Unicode database, which is not part of the repository: it is the parameter
  \<open>uni\<close> of everything that sanitises.
\<close>

definition latin1_isalnum :: "pychar \<Rightarrow> bool" where
  "latin1_isalnum c \<longleftrightarrow>
     (48 \<le> c \<and> c \<le> 57) \<or> (65 \<le> c \<and> c \<le> 90) \<or> (97 \<le> c \<and> c \<le> 122)
     \<or> c = 170 \<or> c = 178 \<or> c = 179 \<or> c = 181 \<or> c = 185 \<or> c = 186
     \<or> (188 \<le> c \<and> c \<le> 190) \<or> (192 \<le> c \<and> c \<le> 214)
     \<or> (216 \<le> c \<and> c \<le> 246) \<or> (248 \<le> c \<and> c \<le> 255)"

definition isalnum :: "(pychar \<Rightarrow> bool) \<Rightarrow> pychar \<Rightarrow> bool" where
  "isalnum uni c = (if c < 256 then latin1_isalnum c else uni c)"

text \<open>The character class \<open>[A-Za-z0-9_-]\<close> of the specification.\<close>

definition ascii_safe :: "pychar \<Rightarrow> bool" where
  "ascii_safe c \<longleftrightarrow>
     (48 \<le> c \<and> c \<le> 57) \<or> (65 \<le> c \<and> c \<le> 90) \<or> (97 \<le> c \<and> c \<le> 122)
     \<or> c = 95 \<or> c = 45"

section \<open>The sanitizer\<close>

text \<open>
  \<^verbatim>\<open>return "".join(c if c.isalnum() or c in ('_', '-') else '_' for c in name)\<close>
  The four tools carry the same function; \<open>95\<close> is the underscore, \<open>45\<close> the hyphen.
\<close>

definition sanitize_char :: "(pychar \<Rightarrow> bool) \<Rightarrow> pychar \<Rightarrow> pychar" where
  "sanitize_char uni c = (if isalnum uni c \<or> c = 95 \<or> c = 45 then c else 95)"

definition sanitize_filename :: "(pychar \<Rightarrow> bool) \<Rightarrow> pystr \<Rightarrow> pystr" where
  "sanitize_filename uni name = map (sanitize_char uni) name"

text \<open>\<^verbatim>\<open>sanitize_filename(top_key) or "key_empty"\<close>: the empty string is falsy.\<close>

definition or_key_empty :: "pystr \<Rightarrow> pystr" where
  "or_key_empty k = (if k = [] then ustr ''key_empty'' else k)"

section \<open>Values loaded from JSON\<close>

text \<open>
  What \<open>json.load\<close> returns: \<open>None\<close>, a \<open>bool\<close>, an \<open>int\<close>, a \<open>float\<close>, a \<open>str\<close>,
  a \<open>list\<close> or a \<open>dict\<close> with string keys. A dict is the list of its items in
  insertion order (the order in which \<open>for k in d\<close> visits them); the keys of a loaded dict
  are distinct. A float is held as the rational value of the double; NaN and the
  infinities, which \<open>json.load\<close> also accepts, have no value here.
\<close>

datatype json =
    JNull
  | JBool bool
  | JInt int
  | JFloat rat
  | JStr pystr
  | JArr "json list"
  | JObj "(pystr \<times> json) list"

datatype exn = TypeError | AttributeError | KeyError | IndexError | OSError | WriteError

text \<open>\<open>not x\<close> is \<open>\<not> truthy x\<close>.\<close>

fun truthy :: "json \<Rightarrow> bool" where
  "truthy JNull = False"
| "truthy (JBool b) = b"
| "truthy (JInt i) = (i \<noteq> 0)"
| "truthy (JFloat r) = (r \<noteq> 0)"
| "truthy (JStr s) = (s \<noteq> [])"
| "truthy (JArr xs) = (xs \<noteq> [])"
| "truthy (JObj kvs) = (kvs \<noteq> [])"

text \<open>\<open>for x in v\<close>, \<open>enumerate(v)\<close> and \<open>len(v)\<close>: a dict gives its keys, a string its
  characters; a number, a bool or \<open>None\<close> raises TypeError.\<close>

fun py_iter :: "json \<Rightarrow> exn + json list" where
  "py_iter (JObj kvs) = Inr (map (\<lambda>kv. JStr (fst kv)) kvs)"
| "py_iter (JArr xs) = Inr xs"
| "py_iter (JStr s) = Inr (map (\<lambda>c. JStr [c]) s)"
| "py_iter _ = Inl TypeError"

text \<open>\<open>v.get(k, d)\<close>: only a dict has the method.\<close>

fun py_get :: "json \<Rightarrow> pystr \<Rightarrow> json \<Rightarrow> exn + json" where
  "py_get (JObj kvs) k d = Inr (case map_of kvs k of Some v \<Rightarrow> v | None \<Rightarrow> d)"
| "py_get _ k d = Inl AttributeError"

text \<open>\<open>xs[i]\<close> on a sequence: a negative index counts from the end.\<close>

definition seq_index :: "'a list \<Rightarrow> int \<Rightarrow> exn + 'a" where
  "seq_index xs i =
     (if 0 \<le> i \<and> i < int (length xs) then Inr (xs ! nat i)
      else if i < 0 \<and> - int (length xs) \<le> i then Inr (xs ! nat (i + int (length xs)))
      else Inl IndexError)"

text \<open>\<open>v[k]\<close>. The keys of a loaded dict are strings, so another hashable key is
  missing (KeyError) and a list or dict as key is unhashable (TypeError); a list or
  string takes an \<open>int\<close> (or \<open>bool\<close>) index.\<close>

fun py_getitem :: "json \<Rightarrow> json \<Rightarrow> exn + json" where
  "py_getitem (JObj kvs) (JStr k) =
     (case map_of kvs k of Some v \<Rightarrow> Inr v | None \<Rightarrow> Inl KeyError)"
| "py_getitem (JObj kvs) (JArr ks) = Inl TypeError"
| "py_getitem (JObj kvs) (JObj ks) = Inl TypeError"
| "py_getitem (JObj kvs) k = Inl KeyError"
| "py_getitem (JArr xs) (JInt i) = seq_index xs i"
| "py_getitem (JArr xs) (JBool b) = seq_index xs (if b then 1 else 0)"
| "py_getitem (JStr s) (JInt i) = map_sum id (\<lambda>c. JStr [c]) (seq_index s i)"
| "py_getitem (JStr s) (JBool b) =
     map_sum id (\<lambda>c. JStr [c]) (seq_index s (if b then 1 else 0))"
| "py_getitem v k = Inl TypeError"

text \<open>The numeric value of an \<open>int\<close>, \<open>float\<close> or \<open>bool\<close> (\<open>True\<close> is \<open>1\<close>).\<close>

fun num_val :: "json \<Rightarrow> rat option" where
  "num_val (JBool b) = Some (if b then 1 else 0)"
| "num_val (JInt i) = Some (of_int i)"
| "num_val (JFloat r) = Some r"
| "num_val _ = None"

text \<open>\<open>a == b\<close>: numbers by value, dicts without regard to order.\<close>

fun py_eq :: "json \<Rightarrow> json \<Rightarrow> bool"
  and py_eq_list :: "json list \<Rightarrow> json list \<Rightarrow> bool"
  and py_eq_items :: "(pystr \<times> json) list \<Rightarrow> (pystr \<times> json) list \<Rightarrow> bool" where
  "py_eq JNull b = (b = JNull)"
| "py_eq (JStr s) b = (b = JStr s)"
| "py_eq (JArr xs) b = (case b of JArr ys \<Rightarrow> py_eq_list xs ys | _ \<Rightarrow> False)"
| "py_eq (JObj kvs) b =
     (case b of JObj kws \<Rightarrow> length kvs = length kws \<and> py_eq_items kvs kws | _ \<Rightarrow> False)"
| "py_eq a b =
     (case (num_val a, num_val b) of (Some x, Some y) \<Rightarrow> x = y | _ \<Rightarrow> False)"
| "py_eq_list [] ys = (ys = [])"
| "py_eq_list (x # xs) ys =
     (case ys of [] \<Rightarrow> False | y # ys' \<Rightarrow> py_eq x y \<and> py_eq_list xs ys')"
| "py_eq_items [] kws = True"
| "py_eq_items (kv # kvs) kws =
     (case map_of kws (fst kv) of
        None \<Rightarrow> False
      | Some w \<Rightarrow> py_eq (snd kv) w \<and> py_eq_items kvs kws)"

text \<open>\<open>s < t\<close> on strings: lexicographic by code point.\<close>

fun str_lt :: "pystr \<Rightarrow> pystr \<Rightarrow> bool" where
  "str_lt [] t = (t \<noteq> [])"
| "str_lt (c # s) [] = False"
| "str_lt (c # s) (d # t) = (c < d \<or> (c = d \<and> str_lt s t))"

text \<open>\<open>a < b\<close>: numbers with numbers, strings with strings, lists with lists (at the
  first position where the elements are not equal); anything else raises TypeError.\<close>

fun py_lt :: "json \<Rightarrow> json \<Rightarrow> exn + bool"
  and py_lt_list :: "json list \<Rightarrow> json list \<Rightarrow> exn + bool" where
  "py_lt (JStr s) b = (case b of JStr t \<Rightarrow> Inr (str_lt s t) | _ \<Rightarrow> Inl TypeError)"
| "py_lt (JArr xs) b = (case b of JArr ys \<Rightarrow> py_lt_list xs ys | _ \<Rightarrow> Inl TypeError)"
| "py_lt a b =
     (case (num_val a, num_val b) of
        (Some x, Some y) \<Rightarrow> Inr (x < y)
      | _ \<Rightarrow> Inl TypeError)"
| "py_lt_list [] ys = Inr (ys \<noteq> [])"
| "py_lt_list (x # xs) ys =
     (case ys of
        [] \<Rightarrow> Inr False
      | y # ys' \<Rightarrow> if py_eq x y then py_lt_list xs ys' else py_lt x y)"

text \<open>\<open>min(a, b)\<close> keeps \<open>a\<close> unless \<open>b < a\<close>.\<close>

definition py_min :: "json \<Rightarrow> json \<Rightarrow> exn + json" where
  "py_min a b = (case py_lt b a of Inl e \<Rightarrow> Inl e | Inr lt \<Rightarrow> Inr (if lt then b else a))"

text \<open>
  \<open>sanitize_filename\<close> iterates over its argument, so a value that is not a string is
  treated as Python does: a list (or the keys of a dict) is walked element by element,
  each of which must be a string (\<open>c.isalnum()\<close>, AttributeError otherwise) and is kept
  whole or replaced by one underscore; a number, a bool or \<open>None\<close> is not iterable.
\<close>

definition str_isalnum :: "(pychar \<Rightarrow> bool) \<Rightarrow> pystr \<Rightarrow> bool" where
  "str_isalnum uni s \<longleftrightarrow> s \<noteq> [] \<and> list_all (isalnum uni) s"

fun sanitize_items :: "(pychar \<Rightarrow> bool) \<Rightarrow> json list \<Rightarrow> exn + pystr" where
  "sanitize_items uni [] = Inr []"
| "sanitize_items uni (JStr c # cs) =
     (case sanitize_items uni cs of
        Inl e \<Rightarrow> Inl e
      | Inr r \<Rightarrow> Inr ((if str_isalnum uni c \<or> c = [95] \<or> c = [45] then c else [95]) @ r))"
| "sanitize_items uni (c # cs) = Inl AttributeError"

definition sanitize_value :: "(pychar \<Rightarrow> bool) \<Rightarrow> json \<Rightarrow> exn + pystr" where
  "sanitize_value uni v =
     (case v of
        JStr s \<Rightarrow> Inr (sanitize_filename uni s)
      | _ \<Rightarrow> (case py_iter v of Inl e \<Rightarrow> Inl e | Inr cs \<Rightarrow> sanitize_items uni cs))"

section \<open>Paths and numbers in file names\<close>

text \<open>\<open>os.path.basename\<close>, \<open>os.path.splitext\<close> and \<open>os.path.join\<close> of \<open>posixpath\<close>;
  \<open>47\<close> is the slash, \<open>46\<close> the dot. \<open>splitext\<close> splits at the last dot of the last
  component, unless that component has only dots before it.\<close>

definition basename :: "pystr \<Rightarrow> pystr" where
  "basename p = rev (takeWhile (\<lambda>c. c \<noteq> 47) (rev p))"

definition splitext :: "pystr \<Rightarrow> pystr \<times> pystr" where
  "splitext p =
     (let tail = takeWhile (\<lambda>c. c \<noteq> 46) (rev p) in
      if 46 \<notin> set p \<or> 47 \<in> set tail then (p, [])
      else
        let root = take (length p - length tail - 1) p in
        if list_ex (\<lambda>c. c \<noteq> 46) (basename root) then (root, drop (length root) p)
        else (p, []))"

definition path_join :: "pystr \<Rightarrow> pystr \<Rightarrow> pystr" where
  "path_join a b =
     (if take 1 b = [47] then b
      else if a = [] \<or> last a = 47 then a @ b
      else a @ [47] @ b)"

text \<open>\<open>str(n)\<close> of a non-negative \<open>int\<close>, as an f-string prints an index.\<close>

function str_nat :: "nat \<Rightarrow> pystr" where
  "str_nat n = (if n < 10 then [48 + n] else str_nat (n div 10) @ [48 + n mod 10])"
  by pat_completeness auto
termination
  by (relation "measure id") auto

declare str_nat.simps [simp del]

section \<open>The environment of a run\<close>

text \<open>
  What a tool is given from outside the repository: the Unicode table behind
  \<open>str.isalnum\<close>; whether the output directory exists when the tool starts and whether
  \<open>os.makedirs\<close> can create it; \<open>Structure.from_dict\<close> of pymatgen (\<open>None\<close> when it
  raises); whether \<open>structure.to(fmt="poscar", filename=...)\<close> returns normally; whether
  \<open>writer.writerow\<close> of the csv module returns normally. Opening a file for writing is
  taken to succeed.
\<close>

record 'st env =
  unicode_alnum :: "pychar \<Rightarrow> bool"
  exists_output_dir :: bool
  makedirs_ok :: bool
  from_dict :: "json \<Rightarrow> 'st option"
  to_poscar :: "'st \<Rightarrow> pystr \<Rightarrow> bool"
  writerow_ok :: "pystr \<Rightarrow> json \<Rightarrow> bool"

text \<open>The command line: \<open>-i\<close>, \<open>-o\<close> and, except for the 2D label emitter, \<open>-f\<close>.\<close>

record io_args =
  input_dir :: pystr
  output_dir :: pystr

record args = io_args +
  filename_prefix :: pystr

text \<open>
  An input file, as \<open>sorted(glob.glob(pattern))\<close> lists it: its path, and the value
  \<open>json.load\<close> gives for it (\<open>None\<close> when opening or parsing raises).
\<close>

type_synonym input_file = "pystr \<times> json option"

text \<open>
  What a run has done so far: whether the output directory exists, the POSCAR files
  written, the path of the CSV opened, the rows written to it, the counter \<open>skipped\<close>,
  and the progress files of the 3D tools.
\<close>

record state =
  dir_exists :: bool
  poscar_files :: "pystr list"
  csv_path :: "pystr option"
  csv_rows :: "(pystr \<times> json) list"
  skipped :: nat
  marker_files :: "pystr list"

text \<open>
  How a run ends early: \<open>exit(n)\<close> or an exception nobody catches. A run is either
  stopped (\<open>Inl\<close>, with the state reached) or returns from \<open>main\<close> (\<open>Inr\<close>).
\<close>

datatype stop = SystemExit nat | Uncaught exn

type_synonym run = "(stop \<times> state) + state"

fun exit_status :: "run \<Rightarrow> nat" where
  "exit_status (Inr s) = 0"
| "exit_status (Inl (SystemExit n, s)) = n"
| "exit_status (Inl (Uncaught e, s)) = 1"

fun final_state :: "run \<Rightarrow> state" where
  "final_state (Inr s) = s"
| "final_state (Inl (why, s)) = s"

definition start :: "'st env \<Rightarrow> state" where
  "start env =
     \<lparr>dir_exists = exists_output_dir env, poscar_files = [], csv_path = None,
      csv_rows = [], skipped = 0, marker_files = []\<rparr>"

text \<open>\<open>create_output_directory\<close> (2D and 3D geometry emitters): \<open>exit(1)\<close> when
  \<open>os.makedirs\<close> raises.\<close>

definition create_output_directory :: "'st env \<Rightarrow> state \<Rightarrow> run" where
  "create_output_directory env s =
     (if \<not> dir_exists s then
        (if makedirs_ok env then Inr (s\<lparr>dir_exists := True\<rparr>) else Inl (SystemExit 1, s))
      else Inr s)"

text \<open>\<open>generate_poscar\<close>: a failure of \<open>structure.to\<close> is caught and printed.\<close>

definition generate_poscar :: "'st env \<Rightarrow> 'st \<Rightarrow> pystr \<Rightarrow> state \<Rightarrow> state" where
  "generate_poscar env structure filename s =
     (if to_poscar env structure filename
      then s\<lparr>poscar_files := poscar_files s @ [filename]\<rparr> else s)"

section \<open>2D geometry emitter (\<open>2D/makePOSCARs.py\<close>)\<close>

text \<open>
  The file name of one step:
  \<^verbatim>\<open>f"{filename_prefix}{sanitized_base_filename}_{sanitized_top_key}_entry{entry_index}_step{step_index}.vasp"\<close>
\<close>

definition makePOSCARs2D_filename ::
  "(pychar \<Rightarrow> bool) \<Rightarrow> pystr \<Rightarrow> pystr \<Rightarrow> json \<Rightarrow> nat \<Rightarrow> nat \<Rightarrow> exn + pystr" where
  "makePOSCARs2D_filename uni prefix file_path top_key entry_index step_index =
     (case sanitize_value uni top_key of
        Inl e \<Rightarrow> Inl e
      | Inr k \<Rightarrow>
          let sanitized_top_key = or_key_empty k;
              base_filename = basename file_path;
              sanitized_base_filename = sanitize_filename uni (fst (splitext base_filename))
          in Inr (prefix @ sanitized_base_filename @ ustr ''_'' @ sanitized_top_key
                  @ ustr ''_entry'' @ str_nat entry_index
                  @ ustr ''_step'' @ str_nat step_index @ ustr ''.vasp''))"

text \<open>\<open>for step_index, step in enumerate(steps)\<close>\<close>

fun makePOSCARs2D_steps ::
  "'st env \<Rightarrow> args \<Rightarrow> pystr \<Rightarrow> json \<Rightarrow> nat \<Rightarrow> nat \<Rightarrow> json list \<Rightarrow> state \<Rightarrow> run" where
  "makePOSCARs2D_steps env a file_path top_key entry_index step_index [] s = Inr s"
| "makePOSCARs2D_steps env a file_path top_key entry_index step_index (step # steps) s =
     (case py_get step (ustr ''structure'') JNull of
        Inl e \<Rightarrow> Inl (Uncaught e, s)
      | Inr structure_dict \<Rightarrow>
          if \<not> truthy structure_dict then
            makePOSCARs2D_steps env a file_path top_key entry_index (Suc step_index) steps s
          else
            (case from_dict env structure_dict of
               None \<Rightarrow>
                 makePOSCARs2D_steps env a file_path top_key entry_index (Suc step_index) steps s
             | Some structure \<Rightarrow>
                 (case makePOSCARs2D_filename (unicode_alnum env) (filename_prefix a)
                         file_path top_key entry_index step_index of
                    Inl e \<Rightarrow> Inl (Uncaught e, s)
                  | Inr poscar_filename \<Rightarrow>
                      let poscar_path = path_join (output_dir a) poscar_filename in
                      makePOSCARs2D_steps env a file_path top_key entry_index (Suc step_index)
                        steps (generate_poscar env structure poscar_path s))))"

text \<open>\<open>for entry_index, entry in enumerate(entries)\<close>\<close>

fun makePOSCARs2D_entries ::
  "'st env \<Rightarrow> args \<Rightarrow> pystr \<Rightarrow> json \<Rightarrow> nat \<Rightarrow> json list \<Rightarrow> state \<Rightarrow> run" where
  "makePOSCARs2D_entries env a file_path top_key entry_index [] s = Inr s"
| "makePOSCARs2D_entries env a file_path top_key entry_index (entry # entries) s =
     (case py_get entry (ustr ''steps'') (JArr []) of
        Inl e \<Rightarrow> Inl (Uncaught e, s)
      | Inr steps \<Rightarrow>
          if \<not> truthy steps then
            makePOSCARs2D_entries env a file_path top_key (Suc entry_index) entries s
          else
            (case py_iter steps of
               Inl e \<Rightarrow> Inl (Uncaught e, s)
             | Inr step_list \<Rightarrow>
                 (case makePOSCARs2D_steps env a file_path top_key entry_index 0 step_list s of
                    Inl stopped \<Rightarrow> Inl stopped
                  | Inr s' \<Rightarrow>
                      makePOSCARs2D_entries env a file_path top_key (Suc entry_index)
                        entries s')))"

text \<open>\<open>for top_key in data\<close>\<close>

fun makePOSCARs2D_keys ::
  "'st env \<Rightarrow> args \<Rightarrow> pystr \<Rightarrow> json \<Rightarrow> json list \<Rightarrow> state \<Rightarrow> run" where
  "makePOSCARs2D_keys env a file_path data [] s = Inr s"
| "makePOSCARs2D_keys env a file_path data (top_key # keys) s =
     (case py_getitem data top_key of
        Inl e \<Rightarrow> Inl (Uncaught e, s)
      | Inr entries \<Rightarrow>
          if \<not> truthy entries then makePOSCARs2D_keys env a file_path data keys s
          else
            (case py_iter entries of
               Inl e \<Rightarrow> Inl (Uncaught e, s)
             | Inr entry_list \<Rightarrow>
                 (case makePOSCARs2D_entries env a file_path top_key 0 entry_list s of
                    Inl stopped \<Rightarrow> Inl stopped
                  | Inr s' \<Rightarrow> makePOSCARs2D_keys env a file_path data keys s')))"

text \<open>\<open>load_json\<close> of the 2D tools returns \<open>None\<close> when loading raises.\<close>

definition load_json2D :: "json option \<Rightarrow> json" where
  "load_json2D content = (case content of None \<Rightarrow> JNull | Some data \<Rightarrow> data)"

text \<open>\<open>for file_index, file_path in enumerate(json_files)\<close>; the index is only printed.\<close>

fun makePOSCARs2D_files :: "'st env \<Rightarrow> args \<Rightarrow> input_file list \<Rightarrow> state \<Rightarrow> run" where
  "makePOSCARs2D_files env a [] s = Inr s"
| "makePOSCARs2D_files env a ((file_path, content) # files) s =
     (let data = load_json2D content in
      if data = JNull then makePOSCARs2D_files env a files s
      else
        (case py_iter data of
           Inl e \<Rightarrow> Inl (Uncaught e, s)
         | Inr keys \<Rightarrow>
             (case makePOSCARs2D_keys env a file_path data keys s of
                Inl stopped \<Rightarrow> Inl stopped
              | Inr s' \<Rightarrow> makePOSCARs2D_files env a files s')))"

definition makePOSCARs2D_main :: "'st env \<Rightarrow> args \<Rightarrow> input_file list \<Rightarrow> run" where
  "makePOSCARs2D_main env a json_files =
     (case create_output_directory env (start env) of
        Inl stopped \<Rightarrow> Inl stopped
      | Inr s \<Rightarrow>
          if json_files = [] then Inl (SystemExit 1, s)
          else makePOSCARs2D_files env a json_files s)"

section \<open>2D label emitter (\<open>2D/writeIDPROP.py\<close>)\<close>

text \<open>
  The tool has no \<open>-f\<close> option; the file name of one step starts with a literal:
  \<^verbatim>\<open>f"POSCAR_{sanitized_base_filename}_{sanitized_top_key}_entry{entry_index}_step{step_index}.vasp"\<close>
\<close>

definition writeIDPROP2D_filename :: "pystr \<Rightarrow> pystr \<Rightarrow> nat \<Rightarrow> nat \<Rightarrow> pystr" where
  "writeIDPROP2D_filename sanitized_base_filename sanitized_top_key entry_index step_index =
     ustr ''POSCAR_'' @ sanitized_base_filename @ ustr ''_'' @ sanitized_top_key
     @ ustr ''_entry'' @ str_nat entry_index
     @ ustr ''_step'' @ str_nat step_index @ ustr ''.vasp''"

text \<open>\<open>for step_index, step in enumerate(steps)\<close>; a step without a structure, or whose
  energy is \<open>None\<close>, and a row that cannot be written, are counted in \<open>skipped\<close>.\<close>

fun writeIDPROP2D_steps ::
  "'st env \<Rightarrow> pystr \<Rightarrow> pystr \<Rightarrow> nat \<Rightarrow> nat \<Rightarrow> json list \<Rightarrow> state \<Rightarrow> run" where
  "writeIDPROP2D_steps env sanitized_base_filename sanitized_top_key entry_index step_index
     [] s = Inr s"
| "writeIDPROP2D_steps env sanitized_base_filename sanitized_top_key entry_index step_index
     (step # steps) s =
     (case py_get step (ustr ''structure'') JNull of
        Inl e \<Rightarrow> Inl (Uncaught e, s)
      | Inr structure_dict \<Rightarrow>
          (case py_get step (ustr ''energy'') JNull of
             Inl e \<Rightarrow> Inl (Uncaught e, s)
           | Inr energy \<Rightarrow>
               if \<not> truthy structure_dict \<or> energy = JNull then
                 writeIDPROP2D_steps env sanitized_base_filename sanitized_top_key entry_index
                   (Suc step_index) steps (s\<lparr>skipped := skipped s + 1\<rparr>)
               else
                 let poscar_filename =
                       writeIDPROP2D_filename sanitized_base_filename sanitized_top_key
                         entry_index step_index
                 in
                 if writerow_ok env poscar_filename energy then
                   writeIDPROP2D_steps env sanitized_base_filename sanitized_top_key
                     entry_index (Suc step_index) steps
                     (s\<lparr>csv_rows := csv_rows s @ [(poscar_filename, energy)]\<rparr>)
                 else
                   writeIDPROP2D_steps env sanitized_base_filename sanitized_top_key
                     entry_index (Suc step_index) steps (s\<lparr>skipped := skipped s + 1\<rparr>)))"

text \<open>\<open>for entry_index, entry in enumerate(entries)\<close>\<close>

fun writeIDPROP2D_entries ::
  "'st env \<Rightarrow> pystr \<Rightarrow> pystr \<Rightarrow> nat \<Rightarrow> json list \<Rightarrow> state \<Rightarrow> run" where
  "writeIDPROP2D_entries env sanitized_base_filename sanitized_top_key entry_index [] s = Inr s"
| "writeIDPROP2D_entries env sanitized_base_filename sanitized_top_key entry_index
     (entry # entries) s =
     (case py_get entry (ustr ''steps'') (JArr []) of
        Inl e \<Rightarrow> Inl (Uncaught e, s)
      | Inr steps \<Rightarrow>
          if \<not> truthy steps then
            writeIDPROP2D_entries env sanitized_base_filename sanitized_top_key
              (Suc entry_index) entries s
          else
            (case py_iter steps of
               Inl e \<Rightarrow> Inl (Uncaught e, s)
             | Inr step_list \<Rightarrow>
                 (case writeIDPROP2D_steps env sanitized_base_filename sanitized_top_key
                         entry_index 0 step_list s of
                    Inl stopped \<Rightarrow> Inl stopped
                  | Inr s' \<Rightarrow>
                      writeIDPROP2D_entries env sanitized_base_filename sanitized_top_key
                        (Suc entry_index) entries s')))"

text \<open>\<open>for top_key in data\<close>; the key is sanitised once its entries are known to be
  non-empty.\<close>

fun writeIDPROP2D_keys :: "'st env \<Rightarrow> pystr \<Rightarrow> json \<Rightarrow> json list \<Rightarrow> state \<Rightarrow> run" where
  "writeIDPROP2D_keys env sanitized_base_filename data [] s = Inr s"
| "writeIDPROP2D_keys env sanitized_base_filename data (top_key # keys) s =
     (case py_getitem data top_key of
        Inl e \<Rightarrow> Inl (Uncaught e, s)
      | Inr entries \<Rightarrow>
          if \<not> truthy entries then writeIDPROP2D_keys env sanitized_base_filename data keys s
          else
            (case sanitize_value (unicode_alnum env) top_key of
               Inl e \<Rightarrow> Inl (Uncaught e, s)
             | Inr k \<Rightarrow>
                 let sanitized_top_key = or_key_empty k in
                 (case py_iter entries of
                    Inl e \<Rightarrow> Inl (Uncaught e, s)
                  | Inr entry_list \<Rightarrow>
                      (case writeIDPROP2D_entries env sanitized_base_filename
                              sanitized_top_key 0 entry_list s of
                         Inl stopped \<Rightarrow> Inl stopped
                       | Inr s' \<Rightarrow>
                           writeIDPROP2D_keys env sanitized_base_filename data keys s'))))"

text \<open>\<open>for file_index, file_path in enumerate(json_files)\<close>\<close>

fun writeIDPROP2D_files :: "'st env \<Rightarrow> input_file list \<Rightarrow> state \<Rightarrow> run" where
  "writeIDPROP2D_files env [] s = Inr s"
| "writeIDPROP2D_files env ((file_path, content) # files) s =
     (let data = load_json2D content in
      if data = JNull then writeIDPROP2D_files env files s
      else
        let base_filename = basename file_path;
            sanitized_base_filename =
              sanitize_filename (unicode_alnum env) (fst (splitext base_filename))
        in
        (case py_iter data of
           Inl e \<Rightarrow> Inl (Uncaught e, s)
         | Inr keys \<Rightarrow>
             (case writeIDPROP2D_keys env sanitized_base_filename data keys s of
                Inl stopped \<Rightarrow> Inl stopped
              | Inr s' \<Rightarrow> writeIDPROP2D_files env files s')))"

text \<open>\<open>main\<close>: \<open>os.makedirs\<close> is not guarded here, so its failure is an uncaught
  exception; the CSV is opened (and truncated) before the input files are listed.\<close>

definition writeIDPROP2D_main :: "'st env \<Rightarrow> io_args \<Rightarrow> input_file list \<Rightarrow> run" where
  "writeIDPROP2D_main env a json_files =
     (let s0 = start env in
      if \<not> dir_exists s0 \<and> \<not> makedirs_ok env then Inl (Uncaught OSError, s0)
      else
        let id_prop_path = path_join (output_dir a) (ustr ''id_prop.csv'');
            s = s0\<lparr>dir_exists := True, csv_path := Some id_prop_path, csv_rows := [],
                   skipped := 0\<rparr>
        in
        if json_files = [] then Inl (SystemExit 1, s)
        else writeIDPROP2D_files env json_files s)"

section \<open>3D geometry emitter (\<open>3D/makePOSCARs.py\<close>)\<close>

text \<open>
  The identifier and file name of one entry:
  \<^verbatim>\<open>mat_id = entry.get('data', {}).get('mat_id', f'entry_{idx}')\<close>
  \<^verbatim>\<open>if not mat_id: mat_id = f'entry_{idx}'\<close>
  \<^verbatim>\<open>f"{filename_prefix}_jsonNum_{index}_entryNum{idx}_{sanitized_mat_id}.vasp"\<close>
\<close>

definition makePOSCARs3D_filename ::
  "(pychar \<Rightarrow> bool) \<Rightarrow> pystr \<Rightarrow> nat \<Rightarrow> nat \<Rightarrow> json \<Rightarrow> exn + pystr" where
  "makePOSCARs3D_filename uni prefix index idx entry =
     (case py_get entry (ustr ''data'') (JObj []) of
        Inl e \<Rightarrow> Inl e
      | Inr d \<Rightarrow>
          (case py_get d (ustr ''mat_id'') (JStr (ustr ''entry_'' @ str_nat idx)) of
             Inl e \<Rightarrow> Inl e
           | Inr m \<Rightarrow>
               let mat_id = (if \<not> truthy m then JStr (ustr ''entry_'' @ str_nat idx) else m) in
               (case sanitize_value uni mat_id of
                  Inl e \<Rightarrow> Inl e
                | Inr sanitized_mat_id \<Rightarrow>
                    Inr (prefix @ ustr ''_jsonNum_'' @ str_nat index
                         @ ustr ''_entryNum'' @ str_nat idx
                         @ ustr ''_'' @ sanitized_mat_id @ ustr ''.vasp''))))"

text \<open>\<open>for idx, entry in enumerate(entries, start=1)\<close>\<close>

fun makePOSCARs3D_entries ::
  "'st env \<Rightarrow> args \<Rightarrow> nat \<Rightarrow> nat \<Rightarrow> json list \<Rightarrow> state \<Rightarrow> run" where
  "makePOSCARs3D_entries env a index idx [] s = Inr s"
| "makePOSCARs3D_entries env a index idx (entry # entries) s =
     (case py_get entry (ustr ''structure'') JNull of
        Inl e \<Rightarrow> Inl (Uncaught e, s)
      | Inr structure_dict \<Rightarrow>
          if \<not> truthy structure_dict then
            makePOSCARs3D_entries env a index (Suc idx) entries s
          else
            (case from_dict env structure_dict of
               None \<Rightarrow> makePOSCARs3D_entries env a index (Suc idx) entries s
             | Some structure \<Rightarrow>
                 (case makePOSCARs3D_filename (unicode_alnum env) (filename_prefix a)
                         index idx entry of
                    Inl e \<Rightarrow> Inl (Uncaught e, s)
                  | Inr poscar_filename \<Rightarrow>
                      let poscar_path = path_join (output_dir a) poscar_filename in
                      makePOSCARs3D_entries env a index (Suc idx) entries
                        (generate_poscar env structure poscar_path s))))"

text \<open>\<open>load_json\<close> of the 3D tools calls \<open>exit(1)\<close> when loading raises.\<close>

definition load_json3D :: "json option \<Rightarrow> state \<Rightarrow> (stop \<times> state) + json" where
  "load_json3D content s =
     (case content of None \<Rightarrow> Inl (SystemExit 1, s) | Some data \<Rightarrow> Inr data)"

text \<open>The progress file \<open>completed{index}.txt\<close>.\<close>

definition completed_marker :: "nat \<Rightarrow> state \<Rightarrow> state" where
  "completed_marker index s =
     s\<lparr>marker_files := marker_files s @ [ustr ''completed'' @ str_nat index @ ustr ''.txt'']\<rparr>"

text \<open>\<open>for index, file_path in enumerate(sorted(glob.glob(pattern)))\<close>\<close>

fun makePOSCARs3D_files :: "'st env \<Rightarrow> args \<Rightarrow> nat \<Rightarrow> input_file list \<Rightarrow> state \<Rightarrow> run" where
  "makePOSCARs3D_files env a index [] s = Inr s"
| "makePOSCARs3D_files env a index ((file_path, content) # files) s =
     (let s1 = completed_marker index s in
      case load_json3D content s1 of
        Inl stopped \<Rightarrow> Inl stopped
      | Inr data \<Rightarrow>
          (case create_output_directory env s1 of
             Inl stopped \<Rightarrow> Inl stopped
           | Inr s2 \<Rightarrow>
               (case py_get data (ustr ''entries'') (JArr []) of
                  Inl e \<Rightarrow> Inl (Uncaught e, s2)
                | Inr entries \<Rightarrow>
                    if \<not> truthy entries then Inl (SystemExit 1, s2)
                    else
                      (case py_iter entries of
                         Inl e \<Rightarrow> Inl (Uncaught e, s2)
                       | Inr entry_list \<Rightarrow>
                           (case makePOSCARs3D_entries env a index 1 entry_list s2 of
                              Inl stopped \<Rightarrow> Inl stopped
                            | Inr s3 \<Rightarrow> makePOSCARs3D_files env a (Suc index) files s3)))))"

definition makePOSCARs3D_main :: "'st env \<Rightarrow> args \<Rightarrow> input_file list \<Rightarrow> run" where
  "makePOSCARs3D_main env a json_files = makePOSCARs3D_files env a 0 json_files (start env)"

section \<open>3D label emitter (\<open>3D/writeIDPROP.py\<close>)\<close>

text \<open>The same three lines as in the geometry emitter derive the file name.\<close>

definition writeIDPROP3D_filename ::
  "(pychar \<Rightarrow> bool) \<Rightarrow> pystr \<Rightarrow> nat \<Rightarrow> nat \<Rightarrow> json \<Rightarrow> exn + pystr" where
  "writeIDPROP3D_filename uni prefix index idx entry =
     (case py_get entry (ustr ''data'') (JObj []) of
        Inl e \<Rightarrow> Inl e
      | Inr d \<Rightarrow>
          (case py_get d (ustr ''mat_id'') (JStr (ustr ''entry_'' @ str_nat idx)) of
             Inl e \<Rightarrow> Inl e
           | Inr m \<Rightarrow>
               let mat_id = (if \<not> truthy m then JStr (ustr ''entry_'' @ str_nat idx) else m) in
               (case sanitize_value uni mat_id of
                  Inl e \<Rightarrow> Inl e
                | Inr sanitized_mat_id \<Rightarrow>
                    Inr (prefix @ ustr ''_jsonNum_'' @ str_nat index
                         @ ustr ''_entryNum'' @ str_nat idx
                         @ ustr ''_'' @ sanitized_mat_id @ ustr ''.vasp''))))"

text \<open>
  The body of the \<open>try\<close>: \<open>entry['data']['band_gap_dir']\<close>, \<open>entry['data']['band_gap_ind']\<close>
  and their \<open>min\<close>. The result is the exception raised, or the label.
\<close>

definition band_gap_label :: "json \<Rightarrow> exn + json" where
  "band_gap_label entry =
     (case py_getitem entry (JStr (ustr ''data'')) of
        Inl e \<Rightarrow> Inl e
      | Inr d \<Rightarrow>
          (case py_getitem d (JStr (ustr ''band_gap_dir'')) of
             Inl e \<Rightarrow> Inl e
           | Inr direct_bandgap \<Rightarrow>
               (case py_getitem d (JStr (ustr ''band_gap_ind'')) of
                  Inl e \<Rightarrow> Inl e
                | Inr indirect_bandgap \<Rightarrow> py_min direct_bandgap indirect_bandgap)))"

text \<open>\<open>for idx, entry in enumerate(entries, start=1)\<close>; only KeyError is caught.\<close>

fun writeIDPROP3D_entries ::
  "'st env \<Rightarrow> args \<Rightarrow> nat \<Rightarrow> nat \<Rightarrow> json list \<Rightarrow> state \<Rightarrow> run" where
  "writeIDPROP3D_entries env a index idx [] s = Inr s"
| "writeIDPROP3D_entries env a index idx (entry # entries) s =
     (case writeIDPROP3D_filename (unicode_alnum env) (filename_prefix a) index idx entry of
        Inl e \<Rightarrow> Inl (Uncaught e, s)
      | Inr poscar_filename \<Rightarrow>
          (case band_gap_label entry of
             Inl e \<Rightarrow>
               if e = KeyError then
                 writeIDPROP3D_entries env a index (Suc idx) entries
                   (s\<lparr>skipped := skipped s + 1\<rparr>)
               else Inl (Uncaught e, s)
           | Inr label \<Rightarrow>
               if writerow_ok env poscar_filename label then
                 writeIDPROP3D_entries env a index (Suc idx) entries
                   (s\<lparr>csv_rows := csv_rows s @ [(poscar_filename, label)]\<rparr>)
               else Inl (Uncaught WriteError, s)))"

text \<open>\<open>for index, file_path in enumerate(sorted(glob.glob(pattern)))\<close>\<close>

fun writeIDPROP3D_files :: "'st env \<Rightarrow> args \<Rightarrow> nat \<Rightarrow> input_file list \<Rightarrow> state \<Rightarrow> run" where
  "writeIDPROP3D_files env a index [] s = Inr s"
| "writeIDPROP3D_files env a index ((file_path, content) # files) s =
     (let s1 = completed_marker index s in
      case load_json3D content s1 of
        Inl stopped \<Rightarrow> Inl stopped
      | Inr data \<Rightarrow>
          (case py_get data (ustr ''entries'') (JArr []) of
             Inl e \<Rightarrow> Inl (Uncaught e, s1)
           | Inr entries \<Rightarrow>
               if \<not> truthy entries then Inl (SystemExit 1, s1)
               else
                 (case py_iter entries of
                    Inl e \<Rightarrow> Inl (Uncaught e, s1)
                  | Inr entry_list \<Rightarrow>
                      (case writeIDPROP3D_entries env a index 1 entry_list s1 of
                         Inl stopped \<Rightarrow> Inl stopped
                       | Inr s2 \<Rightarrow> writeIDPROP3D_files env a (Suc index) files s2))))"

text \<open>\<open>main\<close>: the CSV is opened at a literal path; after the loop the progress file
  \<open>skipped{skipped}entries.txt\<close> is created.\<close>

definition writeIDPROP3D_main :: "'st env \<Rightarrow> args \<Rightarrow> input_file list \<Rightarrow> run" where
  "writeIDPROP3D_main env a json_files =
     (let s = (start env)\<lparr>csv_path := Some (ustr ''./id_prop.csv''), csv_rows := [],
                          skipped := 0\<rparr>
      in
      case writeIDPROP3D_files env a 0 json_files s of
        Inl stopped \<Rightarrow> Inl stopped
      | Inr s' \<Rightarrow>
          Inr (s'\<lparr>marker_files := marker_files s'
                    @ [ustr ''skipped'' @ str_nat (skipped s') @ ustr ''entries.txt'']\<rparr>))"

section \<open>The two input schemas\<close>


fun is_str :: "json \<Rightarrow> bool" where
  "is_str (JStr s) = True"
| "is_str _ = False"

text \<open>An \<open>int\<close> or a \<open>float\<close>, and its value.\<close>

fun numeric :: "json \<Rightarrow> bool" where
  "numeric (JInt i) = True"
| "numeric (JFloat r) = True"
| "numeric _ = False"

fun num :: "json \<Rightarrow> rat" where
  "num (JInt i) = of_int i"
| "num (JFloat r) = r"
| "num _ = 0"





text \<open>Schema B: a dict whose \<open>entries\<close>, when present and non-empty, is a list of
  dicts; the \<open>data\<close> of an entry, when present, is a dict whose \<open>mat_id\<close> is a string
  (or empty, or \<open>null\<close>) and whose two band gaps, when both are there, are numbers.\<close>

definition schemaB_data :: "(pystr \<times> json) list \<Rightarrow> bool" where
  "schemaB_data d =
     ((case map_of d (ustr ''mat_id'') of
         None \<Rightarrow> True
       | Some m \<Rightarrow> is_str m \<or> \<not> truthy m)
      \<and> (case (map_of d (ustr ''band_gap_dir''), map_of d (ustr ''band_gap_ind'')) of
            (Some x, Some y) \<Rightarrow> numeric x \<and> numeric y
          | _ \<Rightarrow> True))"

definition schemaB_entry :: "json \<Rightarrow> bool" where
  "schemaB_entry entry =
     (case entry of
        JObj kvs \<Rightarrow>
          (case map_of kvs (ustr ''data'') of
             None \<Rightarrow> True
           | Some (JObj d) \<Rightarrow> schemaB_data d
           | Some v \<Rightarrow> False)
      | _ \<Rightarrow> False)"



text \<open>A loaded document whose \<open>entries\<close> field is absent or empty, and an input file on
  which a 3D tool calls \<open>exit(1)\<close>: one that cannot be loaded, or has no entries.\<close>

definition no_entries :: "json \<Rightarrow> bool" where
  "no_entries data =
     (case data of
        JObj kvs \<Rightarrow>
          (case map_of kvs (ustr ''entries'') of None \<Rightarrow> True | Some v \<Rightarrow> \<not> truthy v)
      | _ \<Rightarrow> False)"

definition fatal_3D :: "input_file \<Rightarrow> bool" where
  "fatal_3D f = (case snd f of None \<Rightarrow> True | Some data \<Rightarrow> no_entries data)"

section \<open>The label rows of Schema B, as the specification words them\<close>

text \<open>
  Both nested band-gap keys of an entry, when it has them; the label, the smaller of the
  two by value; and, for a list of entries numbered from \<open>idx\<close>, the rows the label
  emitter is to write: one per entry that has both keys, under the derived file name.
\<close>

definition both_band_gaps :: "json \<Rightarrow> (json \<times> json) option" where
  "both_band_gaps entry =
     (case entry of
        JObj kvs \<Rightarrow>
          (case map_of kvs (ustr ''data'') of
             Some (JObj d) \<Rightarrow>
               (case (map_of d (ustr ''band_gap_dir''), map_of d (ustr ''band_gap_ind'')) of
                  (Some x, Some y) \<Rightarrow> Some (x, y)
                | _ \<Rightarrow> None)
           | _ \<Rightarrow> None)
      | _ \<Rightarrow> None)"

definition min_label :: "json \<Rightarrow> json \<Rightarrow> json" where
  "min_label direct indirect = (if num indirect < num direct then indirect else direct)"

fun spec_label_rows ::
  "(pychar \<Rightarrow> bool) \<Rightarrow> pystr \<Rightarrow> nat \<Rightarrow> nat \<Rightarrow> json list \<Rightarrow> (pystr \<times> json) list" where
  "spec_label_rows uni prefix index idx [] = []"
| "spec_label_rows uni prefix index idx (entry # entries) =
     (case (both_band_gaps entry, writeIDPROP3D_filename uni prefix index idx entry) of
        (Some (direct, indirect), Inr name) \<Rightarrow> [(name, min_label direct indirect)]
      | _ \<Rightarrow> [])
     @ spec_label_rows uni prefix index (Suc idx) entries"

definition spec_skipped :: "json list \<Rightarrow> nat" where
  "spec_skipped entries = length (filter (\<lambda>entry. both_band_gaps entry = None) entries)"

section \<open>Example inputs\<close>

text \<open>A Unicode table with no alphanumeric character above U+00FF, and an environment in
  which every call into a library succeeds; the structure object is left abstract.\<close>

definition narrow_table :: "pychar \<Rightarrow> bool" where
  "narrow_table c = False"

definition env_ok :: "unit env" where
  "env_ok =
     \<lparr>unicode_alnum = narrow_table, exists_output_dir = False, makedirs_ok = True,
      from_dict = (\<lambda>d. Some ()), to_poscar = (\<lambda>st p. True),
      writerow_ok = (\<lambda>f v. True)\<rparr>"

definition args_default :: args where
  "args_default =
     \<lparr>input_dir = ustr ''in'', output_dir = ustr ''POSCAR_files'',
      filename_prefix = ustr ''POSCAR_''\<rparr>"

definition args_struct :: args where
  "args_struct =
     \<lparr>input_dir = ustr ''in'', output_dir = ustr ''POSCAR_files'',
      filename_prefix = ustr ''STRUCT_''\<rparr>"

definition io_args_default :: io_args where
  "io_args_default = \<lparr>input_dir = ustr ''in'', output_dir = ustr ''.''\<rparr>"

text \<open>Some non-empty structure dictionary.\<close>

definition a_structure :: json where
  "a_structure = JObj [(ustr ''lattice'', JObj [(ustr ''a'', JFloat 4)])]"

text \<open>\<^verbatim>\<open>{"groupA": [{"steps": [{"structure": {...}, "energy": -5.3}]}]}\<close>\<close>

definition sample_2D :: json where
  "sample_2D =
     JObj [(ustr ''groupA'',
        JArr [JObj [(ustr ''steps'',
          JArr [JObj [(ustr ''structure'', a_structure),
                      (ustr ''energy'', JFloat (- 53 / 10))]])]])]"

text \<open>The same document with the energy given as the string \<open>"high"\<close>.\<close>

definition sample_2D_text_energy :: json where
  "sample_2D_text_energy =
     JObj [(ustr ''groupA'',
        JArr [JObj [(ustr ''steps'',
          JArr [JObj [(ustr ''structure'', a_structure),
                      (ustr ''energy'', JStr (ustr ''high''))]])]])]"

text \<open>\<^verbatim>\<open>{"entries": [{"data": {"mat_id": "mp-1", "band_gap_dir": 1.2, "band_gap_ind": 0.8},
  "structure": ...}]}\<close>\<close>

definition scenario_3D :: "json \<Rightarrow> json" where
  "scenario_3D structure =
     JObj [(ustr ''entries'',
        JArr [JObj [(ustr ''data'',
                 JObj [(ustr ''mat_id'', JStr (ustr ''mp-1'')),
                       (ustr ''band_gap_dir'', JFloat (6 / 5)),
                       (ustr ''band_gap_ind'', JFloat (4 / 5))]),
              (ustr ''structure'', structure)]])]"

text \<open>Three entries, the second of which has no indirect band gap.\<close>

definition three_entries :: "json list" where
  "three_entries =
     [JObj [(ustr ''data'',
         JObj [(ustr ''mat_id'', JStr (ustr ''mp-1'')),
               (ustr ''band_gap_dir'', JFloat (6 / 5)),
               (ustr ''band_gap_ind'', JFloat (4 / 5))])],
      JObj [(ustr ''data'',
         JObj [(ustr ''mat_id'', JStr (ustr ''mp-2'')),
               (ustr ''band_gap_dir'', JFloat (1 / 2))])],
      JObj [(ustr ''data'',
         JObj [(ustr ''mat_id'', JStr (ustr ''mp-3'')),
               (ustr ''band_gap_dir'', JInt 2),
               (ustr ''band_gap_ind'', JFloat (5 / 2))])]]"

text \<open>An entry with a direct band gap only, one with both band gaps and no
  \<open>structure\<close>, and one whose indirect band gap is \<open>null\<close>.\<close>

definition entry_without_indirect_gap :: json where
  "entry_without_indirect_gap =
     JObj [(ustr ''data'',
         JObj [(ustr ''mat_id'', JStr (ustr ''mp-2'')),
               (ustr ''band_gap_dir'', JFloat (1 / 2))])]"

definition entry_without_structure :: json where
  "entry_without_structure =
     JObj [(ustr ''data'',
         JObj [(ustr ''mat_id'', JStr (ustr ''mp-1'')),
               (ustr ''band_gap_dir'', JFloat (6 / 5)),
               (ustr ''band_gap_ind'', JFloat (4 / 5))])]"

definition entry_with_null_gap :: json where
  "entry_with_null_gap =
     JObj [(ustr ''data'',
         JObj [(ustr ''mat_id'', JStr (ustr ''mp-4'')),
               (ustr ''band_gap_dir'', JFloat (6 / 5)),
               (ustr ''band_gap_ind'', JNull)])]"

section \<open>The sanitizer: idempotence and character set\<close>

lemma sanitize_char_idem:
  "sanitize_char uni (sanitize_char uni c) = sanitize_char uni c"
  by (simp add: sanitize_char_def isalnum_def latin1_isalnum_def)

lemma sanitize_char_class:
  "isalnum uni (sanitize_char uni c) \<or> sanitize_char uni c = 95 \<or> sanitize_char uni c = 45"
  by (simp add: sanitize_char_def)

lemma sanitize_char_ascii:
  assumes "c < 128"
  shows "ascii_safe (sanitize_char uni c)"
  using assms
  by (auto simp add: sanitize_char_def isalnum_def latin1_isalnum_def ascii_safe_def)

lemma sanitize_filename_empty_iff:
  "sanitize_filename uni s = [] \<longleftrightarrow> s = []"
  by (simp add: sanitize_filename_def)

lemma sanitize_value_str [simp]:
  "sanitize_value uni (JStr s) = Inr (sanitize_filename uni s)"
  by (simp add: sanitize_value_def)

text \<open>
  C4, as amended. The sanitizer is total and idempotent and keeps the length of its
  input. Every character of its result is alphanumeric in the sense of \<open>str.isalnum\<close>,
  an underscore or a hyphen; for an ASCII input that is the class \<open>[A-Za-z0-9_-]\<close>. A
  group key that sanitizes to the empty string is the empty key, and the file name the
  2D tools derive for it carries the placeholder \<open>key_empty\<close>.
\<close>

theorem sanitize_filename_idempotent_alnum:
  "sanitize_filename uni (sanitize_filename uni s) = sanitize_filename uni s
   \<and> length (sanitize_filename uni s) = length s
   \<and> (\<forall>c \<in> set (sanitize_filename uni s). isalnum uni c \<or> c = 95 \<or> c = 45)
   \<and> ((\<forall>c \<in> set s. c < 128) \<longrightarrow> (\<forall>c \<in> set (sanitize_filename uni s). ascii_safe c))
   \<and> (sanitize_filename uni top_key = [] \<longrightarrow>
        top_key = []
        \<and> or_key_empty (sanitize_filename uni top_key) = ustr ''key_empty''
        \<and> makePOSCARs2D_filename uni prefix file_path (JStr top_key) entry_index step_index =
            Inr (prefix @ sanitize_filename uni (fst (splitext (basename file_path)))
                 @ ustr ''_key_empty_entry'' @ str_nat entry_index
                 @ ustr ''_step'' @ str_nat step_index @ ustr ''.vasp''))"
proof -
  have idem: "sanitize_filename uni (sanitize_filename uni s) = sanitize_filename uni s"
    by (simp add: sanitize_filename_def sanitize_char_idem)
  have len: "length (sanitize_filename uni s) = length s"
    by (simp add: sanitize_filename_def)
  have cls: "\<forall>c \<in> set (sanitize_filename uni s). isalnum uni c \<or> c = 95 \<or> c = 45"
    using sanitize_char_class [of uni] by (auto simp add: sanitize_filename_def)
  have ascii:
    "(\<forall>c \<in> set s. c < 128) \<longrightarrow> (\<forall>c \<in> set (sanitize_filename uni s). ascii_safe c)"
    by (auto simp add: sanitize_filename_def sanitize_char_ascii)
  have placeholder:
    "sanitize_filename uni top_key = [] \<longrightarrow>
       top_key = []
       \<and> or_key_empty (sanitize_filename uni top_key) = ustr ''key_empty''
       \<and> makePOSCARs2D_filename uni prefix file_path (JStr top_key) entry_index step_index =
           Inr (prefix @ sanitize_filename uni (fst (splitext (basename file_path)))
                @ ustr ''_key_empty_entry'' @ str_nat entry_index
                @ ustr ''_step'' @ str_nat step_index @ ustr ''.vasp'')"
    by (simp add: sanitize_filename_empty_iff makePOSCARs2D_filename_def or_key_empty_def
        ustr_def sanitize_filename_def)
  from idem len cls ascii placeholder show ?thesis by blast
qed

theorem sanitize_filename_idempotent_alnum_witness:
  "sanitize_filename narrow_table (sanitize_filename narrow_table (ustr ''a b/c''))
     = sanitize_filename narrow_table (ustr ''a b/c'')
   \<and> sanitize_filename narrow_table (ustr ''a b/c'') = ustr ''a_b_c''
   \<and> ascii_safe 95
   \<and> makePOSCARs2D_filename narrow_table (ustr ''POSCAR_'') (ustr ''in/sample.json'')
        (JStr []) 0 0 = Inr (ustr ''POSCAR_sample_key_empty_entry0_step0.vasp'')"
proof -
  have ascii: "\<forall>c \<in> set (ustr ''a b/c''). c < 128"
    by (simp add: ustr_def)
  have empty: "sanitize_filename narrow_table [] = []"
    by (simp add: sanitize_filename_def)
  have sanitized: "sanitize_filename narrow_table (ustr ''a b/c'') = ustr ''a_b_c''"
    by code_simp
  have base: "sanitize_filename narrow_table (fst (splitext (basename (ustr ''in/sample.json''))))
      = ustr ''sample''"
    by code_simp
  have digits: "str_nat 0 = ustr ''0''"
    by code_simp
  from sanitize_filename_idempotent_alnum
         [of narrow_table "ustr ''a b/c''" "[]" "ustr ''POSCAR_''" "ustr ''in/sample.json''" 0 0]
       ascii empty sanitized
  have "sanitize_filename narrow_table (sanitize_filename narrow_table (ustr ''a b/c''))
          = sanitize_filename narrow_table (ustr ''a b/c'')"
    and "\<forall>c \<in> set (ustr ''a_b_c''). ascii_safe c"
    and "makePOSCARs2D_filename narrow_table (ustr ''POSCAR_'') (ustr ''in/sample.json'')
           (JStr []) 0 0 =
         Inr (ustr ''POSCAR_'' @ sanitize_filename narrow_table
                (fst (splitext (basename (ustr ''in/sample.json''))))
              @ ustr ''_key_empty_entry'' @ str_nat 0 @ ustr ''_step'' @ str_nat 0
              @ ustr ''.vasp'')"
    by simp_all
  then show ?thesis
    using sanitized by (simp only: base digits) (simp add: ustr_def)
qed

text \<open>
  C4 as stated fails: the letter U+00E9 (\<open>e\<close> with acute accent) is alphanumeric for
  \<open>str.isalnum\<close>, so the sanitizer keeps it, and it is not in \<open>[A-Za-z0-9_-]\<close>.
\<close>

theorem sanitize_filename_keeps_non_ascii_letter:
  "sanitize_filename narrow_table [233] = [233] \<and> \<not> ascii_safe 233"
  by (simp add: sanitize_filename_def sanitize_char_def isalnum_def latin1_isalnum_def
      ascii_safe_def)

section \<open>File names of the geometry and label emitters\<close>

text \<open>
  The 3D tools derive the file name of an entry by the same expression, for every
  prefix. The 2D tools agree exactly when the geometry emitter is run with the prefix
  \<open>POSCAR_\<close>, which the label emitter writes as a literal.
\<close>

lemma filename_symmetry_3D:
  "writeIDPROP3D_filename uni prefix index idx entry = makePOSCARs3D_filename uni prefix index idx entry"
  by (simp add: writeIDPROP3D_filename_def makePOSCARs3D_filename_def)

lemma filename_symmetry_2D_default_prefix:
  "makePOSCARs2D_filename uni (ustr ''POSCAR_'') file_path (JStr top_key) entry_index step_index
     = Inr (writeIDPROP2D_filename
             (sanitize_filename uni (fst (splitext (basename file_path))))
             (or_key_empty (sanitize_filename uni top_key)) entry_index step_index)"
  by (simp add: makePOSCARs2D_filename_def writeIDPROP2D_filename_def)

lemma filename_2D_same_iff_default_prefix:
  "makePOSCARs2D_filename uni prefix file_path (JStr top_key) entry_index step_index
     = Inr (writeIDPROP2D_filename
             (sanitize_filename uni (fst (splitext (basename file_path))))
             (or_key_empty (sanitize_filename uni top_key)) entry_index step_index)
   \<longleftrightarrow> prefix = ustr ''POSCAR_''"
  by (simp add: makePOSCARs2D_filename_def writeIDPROP2D_filename_def)

text \<open>
  C1 at a failing input: the 2D tools on \<open>sample.json\<close> with \<open>-f STRUCT_\<close>. The geometry
  emitter writes \<open>STRUCT_sample_groupA_entry0_step0.vasp\<close>; the label emitter, which has
  no \<open>-f\<close> option and starts every name with the literal \<open>POSCAR_\<close>, writes a row for
  \<open>POSCAR_sample_groupA_entry0_step0.vasp\<close>, a file the geometry emitter did not write.
\<close>

theorem prefix_ignored_by_2D_label_emitter:
  "poscar_files (final_state
       (makePOSCARs2D_main env_ok args_struct [(ustr ''in/sample.json'', Some sample_2D)]))
     = [ustr ''POSCAR_files/STRUCT_sample_groupA_entry0_step0.vasp'']
   \<and> csv_rows (final_state
       (writeIDPROP2D_main env_ok io_args_default
          [(ustr ''in/sample.json'', Some sample_2D)]))
     = [(ustr ''POSCAR_sample_groupA_entry0_step0.vasp'', JFloat (- 53 / 10))]"
  by code_simp

section \<open>Schema B entries: file name and label\<close>

lemma schemaB_entry_cases:
  assumes "schemaB_entry entry"
  obtains kvs where "entry = JObj kvs" "map_of kvs (ustr ''data'') = None"
  | kvs d where "entry = JObj kvs" "map_of kvs (ustr ''data'') = Some (JObj d)" "schemaB_data d"
  using assms
  by (cases entry; simp add: schemaB_entry_def split: option.splits json.splits)

lemma sanitize_mat_id_ok:
  assumes "is_str m \<or> \<not> truthy m"
  shows "\<exists>r. sanitize_value uni (if \<not> truthy m then JStr dflt else m) = Inr r"
  using assms by (cases m) auto

lemma schemaB_data_mat_id:
  assumes "schemaB_data d"
  shows "\<exists>r. sanitize_value uni
           (if \<not> truthy (case map_of d (ustr ''mat_id'') of Some v \<Rightarrow> v | None \<Rightarrow> JStr dflt)
            then JStr dflt
            else (case map_of d (ustr ''mat_id'') of Some v \<Rightarrow> v | None \<Rightarrow> JStr dflt)) = Inr r"
proof (cases "map_of d (ustr ''mat_id'')")
  case None
  then show ?thesis by simp
next
  case (Some m)
  with assms have "is_str m \<or> \<not> truthy m"
    by (simp add: schemaB_data_def)
  from sanitize_mat_id_ok [OF this, of uni dflt] Some show ?thesis by (auto split: if_splits)
qed

lemma makePOSCARs3D_filename_ok:
  assumes "schemaB_entry entry"
  shows "\<exists>name. makePOSCARs3D_filename uni prefix index idx entry = Inr name"
  using assms
proof (cases rule: schemaB_entry_cases)
  case (1 kvs)
  then show ?thesis
    by (simp add: makePOSCARs3D_filename_def)
next
  case (2 kvs d)
  from schemaB_data_mat_id [OF 2(3), of uni "ustr ''entry_'' @ str_nat idx"]
  obtain r where "sanitize_value uni
           (if \<not> truthy (case map_of d (ustr ''mat_id'') of Some v \<Rightarrow> v
                | None \<Rightarrow> JStr (ustr ''entry_'' @ str_nat idx))
            then JStr (ustr ''entry_'' @ str_nat idx)
            else (case map_of d (ustr ''mat_id'') of Some v \<Rightarrow> v
                | None \<Rightarrow> JStr (ustr ''entry_'' @ str_nat idx))) = Inr r" by blast
  with 2 show ?thesis
    by (simp add: makePOSCARs3D_filename_def Let_def)
qed

lemma writeIDPROP3D_filename_ok:
  assumes "schemaB_entry entry"
  shows "\<exists>name. writeIDPROP3D_filename uni prefix index idx entry = Inr name"
  using makePOSCARs3D_filename_ok [OF assms] by (simp add: filename_symmetry_3D)

lemma py_min_numeric:
  assumes "numeric x" "numeric y"
  shows "py_min x y = Inr (min_label x y)"
  using assms by (cases x; cases y) (simp_all add: py_min_def min_label_def)

lemma min_label_num:
  "num (min_label x y) = min (num x) (num y)"
  by (simp add: min_label_def min_def)

lemma band_gap_label_spec:
  assumes "schemaB_entry e"
  shows "band_gap_label e =
           (case both_band_gaps e of None \<Rightarrow> Inl KeyError | Some (x, y) \<Rightarrow> Inr (min_label x y))"
  using assms
proof (cases rule: schemaB_entry_cases)
  case (1 kvs)
  then show ?thesis by (simp add: band_gap_label_def both_band_gaps_def)
next
  case (2 kvs d)
  show ?thesis
  proof (cases "map_of d (ustr ''band_gap_dir'')")
    case None
    with 2 show ?thesis by (simp add: band_gap_label_def both_band_gaps_def)
  next
    case dir: (Some x)
    show ?thesis
    proof (cases "map_of d (ustr ''band_gap_ind'')")
      case None
      with 2 dir show ?thesis by (simp add: band_gap_label_def both_band_gaps_def)
    next
      case ind: (Some y)
      with 2 dir have "numeric x" "numeric y" by (simp_all add: schemaB_data_def)
      with 2 dir ind show ?thesis
        by (simp add: band_gap_label_def both_band_gaps_def py_min_numeric)
    qed
  qed
qed

section \<open>The entry loops of the 3D tools\<close>

lemma generate_poscar_dir [simp]:
  "dir_exists (generate_poscar env st p s) = dir_exists s"
  by (simp add: generate_poscar_def)



lemma makePOSCARs3D_entries_no_structure:
  assumes "py_get entry (ustr ''structure'') JNull = Inr sd" and "\<not> truthy sd"
  shows "makePOSCARs3D_entries env a index idx (entry # entries) s
           = makePOSCARs3D_entries env a index (Suc idx) entries s"
  using assms by simp

lemma writeIDPROP3D_entries_skip:
  assumes "schemaB_entry e" and "both_band_gaps e = None"
  shows "writeIDPROP3D_entries env a index idx (e # es) s
           = writeIDPROP3D_entries env a index (Suc idx) es (s\<lparr>skipped := skipped s + 1\<rparr>)"
proof -
  from writeIDPROP3D_filename_ok [OF assms(1)]
  obtain name where
    "writeIDPROP3D_filename (unicode_alnum env) (filename_prefix a) index idx e = Inr name"
    by blast
  with band_gap_label_spec [OF assms(1)] assms(2) show ?thesis by simp
qed

lemma writeIDPROP3D_entries_row:
  assumes "schemaB_entry e" and "both_band_gaps e = Some (x, y)"
    and "writeIDPROP3D_filename (unicode_alnum env) (filename_prefix a) index idx e = Inr name"
    and "writerow_ok env name (min_label x y)"
  shows "writeIDPROP3D_entries env a index idx (e # es) s
           = writeIDPROP3D_entries env a index (Suc idx) es
               (s\<lparr>csv_rows := csv_rows s @ [(name, min_label x y)]\<rparr>)"
  using band_gap_label_spec [OF assms(1)] assms(2-4) by simp

lemma writeIDPROP3D_entries_spec:
  assumes "list_all schemaB_entry es" and "\<forall>name label. writerow_ok env name label"
  shows "writeIDPROP3D_entries env a index idx es s =
           Inr (s\<lparr>csv_rows := csv_rows s
                     @ spec_label_rows (unicode_alnum env) (filename_prefix a) index idx es,
                   skipped := skipped s + spec_skipped es\<rparr>)"
  using assms(1)
proof (induction es arbitrary: idx s)
  case Nil
  then show ?case by (simp add: spec_skipped_def)
next
  case (Cons e es)
  then have e: "schemaB_entry e" and es: "list_all schemaB_entry es" by simp_all
  from writeIDPROP3D_filename_ok [OF e]
  obtain name where name:
    "writeIDPROP3D_filename (unicode_alnum env) (filename_prefix a) index idx e = Inr name"
    by blast
  show ?case
  proof (cases "both_band_gaps e")
    case None
    have "writeIDPROP3D_entries env a index idx (e # es) s
            = writeIDPROP3D_entries env a index (Suc idx) es (s\<lparr>skipped := skipped s + 1\<rparr>)"
      by (rule writeIDPROP3D_entries_skip [OF e None])
    also note Cons.IH [OF es]
    finally show ?thesis
      using None by (simp add: spec_skipped_def)
  next
    case (Some xy)
    obtain x y where xy: "xy = (x, y)" by (cases xy)
    from assms(2) have "writerow_ok env name (min_label x y)" by simp
    from writeIDPROP3D_entries_row [OF e Some [unfolded xy] name this]
    have "writeIDPROP3D_entries env a index idx (e # es) s
            = writeIDPROP3D_entries env a index (Suc idx) es
               (s\<lparr>csv_rows := csv_rows s @ [(name, min_label x y)]\<rparr>)" .
    also note Cons.IH [OF es]
    finally show ?thesis
      using Some xy name by (simp add: spec_skipped_def)
  qed
qed

lemma spec_label_rows_length:
  assumes "list_all schemaB_entry es"
  shows "length (spec_label_rows uni prefix index idx es)
           = length (filter (\<lambda>e. both_band_gaps e \<noteq> None) es)"
  using assms
proof (induction es arbitrary: idx)
  case Nil
  then show ?case by simp
next
  case (Cons e es)
  then have e: "schemaB_entry e" and es: "list_all schemaB_entry es" by simp_all
  from writeIDPROP3D_filename_ok [OF e]
  obtain name where "writeIDPROP3D_filename uni prefix index idx e = Inr name"
    by blast
  with Cons.IH [OF es] show ?case
    by (cases "both_band_gaps e") auto
qed

lemma rows_plus_skipped:
  "length (filter (\<lambda>e. both_band_gaps e \<noteq> None) es) + spec_skipped es = length es"
  by (induction es) (auto simp add: spec_skipped_def)

lemma writeIDPROP3D_main_single:
  assumes "list_all schemaB_entry entries" and "\<forall>name label. writerow_ok env name label"
    and "entries \<noteq> []"
  shows "writeIDPROP3D_main env a [(p, Some (JObj [(ustr ''entries'', JArr entries)]))]
     = Inr ((start env)
         \<lparr>csv_path := Some (ustr ''./id_prop.csv''),
          csv_rows := spec_label_rows (unicode_alnum env) (filename_prefix a) 0 1 entries,
          skipped := spec_skipped entries,
          marker_files := [ustr ''completed'' @ str_nat 0 @ ustr ''.txt'',
             ustr ''skipped'' @ str_nat (spec_skipped entries) @ ustr ''entries.txt'']\<rparr>)"
  using assms(3)
  by (simp add: writeIDPROP3D_main_def load_json3D_def Let_def completed_marker_def start_def
      writeIDPROP3D_entries_spec [OF assms(1,2)])

lemma writeIDPROP3D_entries_csv_path:
  "csv_path (final_state (writeIDPROP3D_entries env a index idx es s)) = csv_path s"
  by (induction es arbitrary: idx s) (auto simp add: Let_def split: sum.splits)

lemma writeIDPROP3D_files_csv_path:
  "csv_path (final_state (writeIDPROP3D_files env a index fs s)) = csv_path s"
proof (induction fs arbitrary: index s)
  case Nil
  then show ?case by simp
next
  case (Cons f fs)
  obtain p c where f: "f = (p, c)" by (cases f)
  have entries: "csv_path (final_state (writeIDPROP3D_entries env a index 1 es (completed_marker index s)))
      = csv_path s" for es
    by (simp add: writeIDPROP3D_entries_csv_path completed_marker_def)
  show ?case
  proof (cases c)
    case None
    then show ?thesis by (simp add: f load_json3D_def completed_marker_def)
  next
    case (Some d)
    show ?thesis
    proof (cases "py_get d (ustr ''entries'') (JArr [])")
      case (Inl e)
      with Some show ?thesis by (simp add: f load_json3D_def completed_marker_def)
    next
      case (Inr v)
      show ?thesis
      proof (cases "truthy v")
        case False
        with Some Inr show ?thesis by (simp add: f load_json3D_def completed_marker_def)
      next
        case True
        show ?thesis
        proof (cases "py_iter v")
          case (Inl e)
          with Some Inr True show ?thesis
            by (simp add: f load_json3D_def completed_marker_def)
        next
          case es: (Inr es)
          show ?thesis
          proof (cases "writeIDPROP3D_entries env a index 1 es (completed_marker index s)")
            case (Inl stopped)
            with entries [of es] Some Inr True es show ?thesis
              by (simp add: f load_json3D_def)
          next
            case s2: (Inr s2)
            with entries [of es] have "csv_path s2 = csv_path s" by simp
            with Some Inr True es s2 Cons.IH [of "Suc index" s2] show ?thesis
              by (simp add: f load_json3D_def)
          qed
        qed
      qed
    qed
  qed
qed

lemma writeIDPROP3D_entries_output:
  "writeIDPROP3D_entries env (a\<lparr>output_dir := d\<rparr>) index idx es s
     = writeIDPROP3D_entries env a index idx es s"
  by (induction es arbitrary: idx s) (auto simp add: Let_def split: sum.splits)

lemma writeIDPROP3D_files_output:
  "writeIDPROP3D_files env (a\<lparr>output_dir := d\<rparr>) index fs s
     = writeIDPROP3D_files env a index fs s"
proof (induction fs arbitrary: index s)
  case Nil
  then show ?case by simp
next
  case (Cons f fs)
  obtain p c where f: "f = (p, c)" by (cases f)
  show ?case
    by (auto simp add: f Let_def writeIDPROP3D_entries_output Cons.IH split: sum.splits)
qed

section \<open>How a run of a 3D tool stops\<close>

text \<open>Every early stop of a 3D tool has exit status 1; a file that cannot be loaded,
  or has no entries, stops the run whatever follows it.\<close>

lemma create_output_directory_stop:
  "create_output_directory env s = Inl x \<Longrightarrow> x = (SystemExit 1, s)"
  by (auto simp add: create_output_directory_def split: if_splits)

lemma makePOSCARs3D_entries_stop:
  "makePOSCARs3D_entries env a index idx es s = Inl x \<Longrightarrow> exit_status (Inl x) = 1"
proof (induction es arbitrary: idx s)
  case Nil
  then show ?case by simp
next
  case (Cons e es)
  from Cons.prems show ?case
    by (auto simp add: Let_def split: sum.splits if_splits option.splits dest: Cons.IH)
qed

lemma makePOSCARs3D_files_stop:
  "makePOSCARs3D_files env a index fs s = Inl x \<Longrightarrow> exit_status (Inl x) = 1"
proof (induction fs arbitrary: index s)
  case Nil
  then show ?case by simp
next
  case (Cons f fs)
  obtain p c where f: "f = (p, c)" by (cases f)
  from Cons.prems show ?case
    unfolding f
    by (auto simp add: Let_def load_json3D_def split: sum.splits if_splits option.splits
        dest: Cons.IH makePOSCARs3D_entries_stop create_output_directory_stop)
qed

lemma writeIDPROP3D_entries_stop:
  "writeIDPROP3D_entries env a index idx es s = Inl x \<Longrightarrow> exit_status (Inl x) = 1"
proof (induction es arbitrary: idx s)
  case Nil
  then show ?case by simp
next
  case (Cons e es)
  from Cons.prems show ?case
    by (auto simp add: Let_def split: sum.splits if_splits option.splits dest: Cons.IH)
qed

lemma writeIDPROP3D_files_stop:
  "writeIDPROP3D_files env a index fs s = Inl x \<Longrightarrow> exit_status (Inl x) = 1"
proof (induction fs arbitrary: index s)
  case Nil
  then show ?case by simp
next
  case (Cons f fs)
  obtain p c where f: "f = (p, c)" by (cases f)
  from Cons.prems show ?case
    unfolding f
    by (auto simp add: Let_def load_json3D_def split: sum.splits if_splits option.splits
        dest: Cons.IH writeIDPROP3D_entries_stop)
qed

lemma makePOSCARs3D_files_fatal:
  assumes "fatal_3D f"
  shows "\<exists>x. makePOSCARs3D_files env a index (f # post) s = Inl x
           \<and> makePOSCARs3D_files env a index [f] s = Inl x"
proof -
  obtain p c where f: "f = (p, c)" by (cases f)
  show ?thesis
  proof (cases c)
    case None
    then show ?thesis by (simp add: f load_json3D_def)
  next
    case (Some d)
    with assms f obtain kvs where d: "d = JObj kvs"
      and e: "\<not> truthy (case map_of kvs (ustr ''entries'') of None \<Rightarrow> JArr [] | Some v \<Rightarrow> v)"
      by (cases d) (auto simp add: fatal_3D_def no_entries_def split: option.splits)
    show ?thesis
      using e
      by (cases "create_output_directory env (completed_marker index s)")
         (simp_all add: f Some d load_json3D_def)
  qed
qed

lemma writeIDPROP3D_files_fatal:
  assumes "fatal_3D f"
  shows "\<exists>x. writeIDPROP3D_files env a index (f # post) s = Inl x
           \<and> writeIDPROP3D_files env a index [f] s = Inl x"
proof -
  obtain p c where f: "f = (p, c)" by (cases f)
  show ?thesis
  proof (cases c)
    case None
    then show ?thesis by (simp add: f load_json3D_def)
  next
    case (Some d)
    with assms f obtain kvs where d: "d = JObj kvs"
      and e: "\<not> truthy (case map_of kvs (ustr ''entries'') of None \<Rightarrow> JArr [] | Some v \<Rightarrow> v)"
      by (cases d) (auto simp add: fatal_3D_def no_entries_def split: option.splits)
    show ?thesis
      using e by (simp add: f Some d load_json3D_def)
  qed
qed

lemma makePOSCARs3D_files_append_fatal:
  assumes "fatal_3D f"
  shows "\<exists>x. makePOSCARs3D_files env a index (pre @ f # post) s = Inl x
           \<and> makePOSCARs3D_files env a index (pre @ [f]) s = Inl x"
proof (induction pre arbitrary: index s)
  case Nil
  from makePOSCARs3D_files_fatal [OF assms] show ?case by simp
next
  case (Cons g pre)
  obtain p c where g: "g = (p, c)" by (cases g)
  show ?case
    using Cons.IH
    by (simp add: g Let_def split: sum.splits option.splits)
qed

lemma writeIDPROP3D_files_append_fatal:
  assumes "fatal_3D f"
  shows "\<exists>x. writeIDPROP3D_files env a index (pre @ f # post) s = Inl x
           \<and> writeIDPROP3D_files env a index (pre @ [f]) s = Inl x"
proof (induction pre arbitrary: index s)
  case Nil
  from writeIDPROP3D_files_fatal [OF assms] show ?case by simp
next
  case (Cons g pre)
  obtain p c where g: "g = (p, c)" by (cases g)
  show ?case
    using Cons.IH
    by (simp add: g Let_def split: sum.splits option.splits)
qed

lemma makePOSCARs3D_main_fatal:
  assumes "fatal_3D f"
  shows "exit_status (makePOSCARs3D_main env a (pre @ f # post)) = 1"
    and "makePOSCARs3D_main env a (pre @ f # post) = makePOSCARs3D_main env a (pre @ [f])"
proof -
  from makePOSCARs3D_files_append_fatal [OF assms, of env a 0 pre post "start env"]
  obtain x where x: "makePOSCARs3D_files env a 0 (pre @ f # post) (start env) = Inl x"
    "makePOSCARs3D_files env a 0 (pre @ [f]) (start env) = Inl x" by blast
  from x show "makePOSCARs3D_main env a (pre @ f # post) = makePOSCARs3D_main env a (pre @ [f])"
    by (simp add: makePOSCARs3D_main_def)
  from makePOSCARs3D_files_stop [OF x(1)] x(1)
  show "exit_status (makePOSCARs3D_main env a (pre @ f # post)) = 1"
    by (simp add: makePOSCARs3D_main_def)
qed

lemma writeIDPROP3D_main_fatal:
  assumes "fatal_3D f"
  shows "exit_status (writeIDPROP3D_main env a (pre @ f # post)) = 1"
    and "writeIDPROP3D_main env a (pre @ f # post) = writeIDPROP3D_main env a (pre @ [f])"
proof -
  let ?s = "(start env)\<lparr>csv_path := Some (ustr ''./id_prop.csv''), csv_rows := [], skipped := 0\<rparr>"
  from writeIDPROP3D_files_append_fatal [OF assms, of env a 0 pre post ?s]
  obtain x where x: "writeIDPROP3D_files env a 0 (pre @ f # post) ?s = Inl x"
    "writeIDPROP3D_files env a 0 (pre @ [f]) ?s = Inl x" by blast
  from x show "writeIDPROP3D_main env a (pre @ f # post) = writeIDPROP3D_main env a (pre @ [f])"
    by (simp add: writeIDPROP3D_main_def)
  from writeIDPROP3D_files_stop [OF x(1)] x(1)
  show "exit_status (writeIDPROP3D_main env a (pre @ f # post)) = 1"
    by (simp add: writeIDPROP3D_main_def)
qed

lemma makePOSCARs3D_files_append:
  "makePOSCARs3D_files env a index (pre @ rest) s =
     (case makePOSCARs3D_files env a index pre s of
        Inl stopped \<Rightarrow> Inl stopped
      | Inr s1 \<Rightarrow> makePOSCARs3D_files env a (index + length pre) rest s1)"
proof (induction pre arbitrary: index s)
  case Nil
  then show ?case by simp
next
  case (Cons g pre)
  obtain q c where g: "g = (q, c)" by (cases g)
  show ?case
    by (auto simp add: g Let_def Cons.IH split: sum.splits)
qed

lemma writeIDPROP3D_files_append:
  "writeIDPROP3D_files env a index (pre @ rest) s =
     (case writeIDPROP3D_files env a index pre s of
        Inl stopped \<Rightarrow> Inl stopped
      | Inr s1 \<Rightarrow> writeIDPROP3D_files env a (index + length pre) rest s1)"
proof (induction pre arbitrary: index s)
  case Nil
  then show ?case by simp
next
  case (Cons g pre)
  obtain q c where g: "g = (q, c)" by (cases g)
  show ?case
    by (auto simp add: g Let_def Cons.IH split: sum.splits)
qed

lemma no_entries_cases:
  assumes "no_entries data"
  obtains v where "py_get data (ustr ''entries'') (JArr []) = Inr v" "\<not> truthy v"
  using assms
  by (cases data) (auto simp add: no_entries_def split: option.splits)

lemma writeIDPROP3D_files_no_entries:
  assumes "no_entries data"
  shows "writeIDPROP3D_files env a index ((p, Some data) # post) s
           = Inl (SystemExit 1, completed_marker index s)"
  using assms
  by (cases rule: no_entries_cases) (simp add: load_json3D_def)

lemma makePOSCARs3D_files_no_entries:
  assumes "no_entries data"
  shows "\<exists>t. makePOSCARs3D_files env a index ((p, Some data) # post) s = Inl (SystemExit 1, t)
           \<and> poscar_files t = poscar_files s"
  using assms
proof (cases rule: no_entries_cases)
  case (1 v)
  show ?thesis
  proof (cases "create_output_directory env (completed_marker index s)")
    case (Inl x)
    then have "x = (SystemExit 1, completed_marker index s)"
      by (rule create_output_directory_stop)
    with Inl show ?thesis
      by (simp add: load_json3D_def completed_marker_def)
  next
    case (Inr s2)
    then have "poscar_files s2 = poscar_files s"
      by (auto simp add: create_output_directory_def completed_marker_def split: if_splits)
    with Inr 1 show ?thesis
      by (simp add: load_json3D_def)
  qed
qed





text \<open>With no input file at all, the loop of a 3D tool does not run and the tool
  returns normally.\<close>

lemma no_input_files_3D:
  "makePOSCARs3D_main env a [] = Inr (start env)"
  "exit_status (writeIDPROP3D_main env a []) = 0"
  by (simp_all add: makePOSCARs3D_main_def writeIDPROP3D_main_def)

section \<open>The 2D tools on Schema A documents\<close>















lemma makePOSCARs2D_files_skip:
  "makePOSCARs2D_files env a (pre @ (p, None) # post) s = makePOSCARs2D_files env a (pre @ post) s"
proof (induction pre arbitrary: s)
  case Nil
  then show ?case by (simp add: load_json2D_def)
next
  case (Cons g pre)
  obtain q c where g: "g = (q, c)" by (cases g)
  show ?case
    by (auto simp add: g Let_def Cons.IH split: sum.splits)
qed

lemma writeIDPROP2D_files_skip:
  "writeIDPROP2D_files env (pre @ (p, None) # post) s = writeIDPROP2D_files env (pre @ post) s"
proof (induction pre arbitrary: s)
  case Nil
  then show ?case by (simp add: load_json2D_def)
next
  case (Cons g pre)
  obtain q c where g: "g = (q, c)" by (cases g)
  show ?case
    by (auto simp add: g Let_def Cons.IH split: sum.splits)
qed

lemma makePOSCARs2D_main_skip:
  assumes "pre @ post \<noteq> []"
  shows "makePOSCARs2D_main env a (pre @ (p, None) # post) = makePOSCARs2D_main env a (pre @ post)"
  using assms
  by (auto simp add: makePOSCARs2D_main_def makePOSCARs2D_files_skip split: sum.splits)

lemma writeIDPROP2D_main_skip:
  assumes "pre @ post \<noteq> []"
  shows "writeIDPROP2D_main env b (pre @ (p, None) # post) = writeIDPROP2D_main env b (pre @ post)"
  using assms
  by (auto simp add: writeIDPROP2D_main_def writeIDPROP2D_files_skip Let_def)

lemma only_unreadable_2D:
  assumes "exists_output_dir env \<or> makedirs_ok env"
  shows "exit_status (makePOSCARs2D_main env a [(p, None)]) = 0"
    and "exit_status (writeIDPROP2D_main env b [(p, None)]) = 0"
  using assms
  by (auto simp add: makePOSCARs2D_main_def writeIDPROP2D_main_def create_output_directory_def
      start_def load_json2D_def Let_def)

section \<open>Input files that cannot be loaded\<close>

text \<open>
  C2, as amended. In the 2D tools a file that is not valid JSON is passed over and
  the files after it are processed: both loops give the result of the batch without the
  file, so does the whole run when another file is left, and a batch of that file
  alone exits with status zero once the output directory exists. In the 3D tools such
  a file stops the run with exit status 1, and what follows it in the batch has no
  effect on the result.
\<close>

theorem malformed_file_skipped_2D_fatal_3D:
  "makePOSCARs2D_files env a (pre @ (p, None) # post) s
     = makePOSCARs2D_files env a (pre @ post) s
   \<and> writeIDPROP2D_files env (pre @ (p, None) # post) s
     = writeIDPROP2D_files env (pre @ post) s
   \<and> (pre @ post \<noteq> [] \<longrightarrow>
        makePOSCARs2D_main env a (pre @ (p, None) # post) = makePOSCARs2D_main env a (pre @ post)
        \<and> writeIDPROP2D_main env b (pre @ (p, None) # post)
          = writeIDPROP2D_main env b (pre @ post))
   \<and> (exists_output_dir env \<or> makedirs_ok env \<longrightarrow>
        exit_status (makePOSCARs2D_main env a [(p, None)]) = 0
        \<and> exit_status (writeIDPROP2D_main env b [(p, None)]) = 0)
   \<and> exit_status (makePOSCARs3D_main env a (pre @ (p, None) # post)) = 1
   \<and> makePOSCARs3D_main env a (pre @ (p, None) # post)
     = makePOSCARs3D_main env a (pre @ [(p, None)])
   \<and> exit_status (writeIDPROP3D_main env a (pre @ (p, None) # post)) = 1
   \<and> writeIDPROP3D_main env a (pre @ (p, None) # post)
     = writeIDPROP3D_main env a (pre @ [(p, None)])"
proof -
  have fatal: "fatal_3D (p, None)" by (simp add: fatal_3D_def)
  show ?thesis
    using makePOSCARs2D_files_skip [of env a pre p post s]
      writeIDPROP2D_files_skip [of env pre p post s]
      makePOSCARs2D_main_skip [of pre post env a p]
      writeIDPROP2D_main_skip [of pre post env b p]
      only_unreadable_2D(1) [of env a p] only_unreadable_2D(2) [of env b p]
      makePOSCARs3D_main_fatal [OF fatal, of env a pre post]
      writeIDPROP3D_main_fatal [OF fatal, of env a pre post]
    by blast
qed

theorem malformed_file_skipped_2D_fatal_3D_witness:
  "makePOSCARs2D_main env_ok args_default
       ([(ustr ''in/a.json'', Some sample_2D)] @ (ustr ''in/b.json'', None)
          # [(ustr ''in/c.json'', Some sample_2D)])
     = makePOSCARs2D_main env_ok args_default
         ([(ustr ''in/a.json'', Some sample_2D)] @ [(ustr ''in/c.json'', Some sample_2D)])
   \<and> writeIDPROP2D_main env_ok io_args_default
       ([(ustr ''in/a.json'', Some sample_2D)] @ (ustr ''in/b.json'', None)
          # [(ustr ''in/c.json'', Some sample_2D)])
     = writeIDPROP2D_main env_ok io_args_default
         ([(ustr ''in/a.json'', Some sample_2D)] @ [(ustr ''in/c.json'', Some sample_2D)])
   \<and> exit_status (makePOSCARs2D_main env_ok args_default [(ustr ''in/b.json'', None)]) = 0
   \<and> exit_status (writeIDPROP2D_main env_ok io_args_default [(ustr ''in/b.json'', None)]) = 0
   \<and> exit_status (makePOSCARs3D_main env_ok args_default
       ([(ustr ''in/a.json'', Some sample_2D)] @ (ustr ''in/b.json'', None)
          # [(ustr ''in/c.json'', Some sample_2D)])) = 1
   \<and> exit_status (writeIDPROP3D_main env_ok args_default
       ([(ustr ''in/a.json'', Some sample_2D)] @ (ustr ''in/b.json'', None)
          # [(ustr ''in/c.json'', Some sample_2D)])) = 1"
proof -
  have rest: "[(ustr ''in/a.json'', Some sample_2D)] @ [(ustr ''in/c.json'', Some sample_2D)] \<noteq> []"
    by simp
  have dir: "exists_output_dir env_ok \<or> makedirs_ok env_ok"
    by (simp add: env_ok_def)
  from malformed_file_skipped_2D_fatal_3D
         [of env_ok args_default "[(ustr ''in/a.json'', Some sample_2D)]" "ustr ''in/b.json''"
             "[(ustr ''in/c.json'', Some sample_2D)]" "start env_ok" io_args_default]
       rest dir
  show ?thesis by blast
qed

text \<open>
  C2 as stated fails for the 3D tools: with an unreadable first file and a good second
  one, the label emitter stops with exit status 1 and writes no row.
\<close>

theorem malformed_file_stops_3D_label_emitter:
  "exit_status
     (writeIDPROP3D_main env_ok args_default
        [(ustr ''in/a.json'', None), (ustr ''in/b.json'', Some (scenario_3D a_structure))]) = 1
   \<and> csv_rows (final_state
     (writeIDPROP3D_main env_ok args_default
        [(ustr ''in/a.json'', None), (ustr ''in/b.json'', Some (scenario_3D a_structure))])) = []"
  by code_simp

section \<open>A Schema B file without entries\<close>

text \<open>
  C3. In the 3D tools, a loaded file whose \<open>entries\<close> field is absent or empty ends
  the whole batch with exit status 1: the files after it have no effect on the result,
  and when the files before it were processed normally the run stops at this file by
  \<open>exit(1)\<close>, with no POSCAR file and no CSV row added.
\<close>

theorem missing_entries_aborts_batch_3D:
  assumes "no_entries data"
  shows "exit_status (makePOSCARs3D_main env a (pre @ (p, Some data) # post)) = 1
     \<and> makePOSCARs3D_main env a (pre @ (p, Some data) # post)
       = makePOSCARs3D_main env a (pre @ [(p, Some data)])
     \<and> exit_status (writeIDPROP3D_main env a (pre @ (p, Some data) # post)) = 1
     \<and> writeIDPROP3D_main env a (pre @ (p, Some data) # post)
       = writeIDPROP3D_main env a (pre @ [(p, Some data)])
     \<and> (\<forall>s1. makePOSCARs3D_main env a pre = Inr s1 \<longrightarrow>
          (\<exists>t. makePOSCARs3D_main env a (pre @ (p, Some data) # post) = Inl (SystemExit 1, t)
               \<and> poscar_files t = poscar_files s1))
     \<and> (\<forall>s1. writeIDPROP3D_files env a 0 pre
                 ((start env)\<lparr>csv_path := Some (ustr ''./id_prop.csv''), csv_rows := [],
                               skipped := 0\<rparr>) = Inr s1 \<longrightarrow>
          writeIDPROP3D_main env a (pre @ (p, Some data) # post)
            = Inl (SystemExit 1, completed_marker (length pre) s1))"
proof -
  from assms have fatal: "fatal_3D (p, Some data)" by (simp add: fatal_3D_def)
  have geom: "\<forall>s1. makePOSCARs3D_main env a pre = Inr s1 \<longrightarrow>
          (\<exists>t. makePOSCARs3D_main env a (pre @ (p, Some data) # post) = Inl (SystemExit 1, t)
               \<and> poscar_files t = poscar_files s1)"
    using makePOSCARs3D_files_no_entries [OF assms, of env a "length pre" p post]
    by (simp add: makePOSCARs3D_main_def makePOSCARs3D_files_append)
  have label: "\<forall>s1. writeIDPROP3D_files env a 0 pre
                 ((start env)\<lparr>csv_path := Some (ustr ''./id_prop.csv''), csv_rows := [],
                               skipped := 0\<rparr>) = Inr s1 \<longrightarrow>
          writeIDPROP3D_main env a (pre @ (p, Some data) # post)
            = Inl (SystemExit 1, completed_marker (length pre) s1)"
    using writeIDPROP3D_files_no_entries [OF assms, of env a "length pre" p post]
    by (simp add: writeIDPROP3D_main_def writeIDPROP3D_files_append)
  from makePOSCARs3D_main_fatal [OF fatal, of env a pre post]
    writeIDPROP3D_main_fatal [OF fatal, of env a pre post] geom label
  show ?thesis by blast
qed

theorem missing_entries_aborts_batch_3D_witness:
  "exit_status (makePOSCARs3D_main env_ok args_default
       ([(ustr ''in/a.json'', Some (scenario_3D a_structure))]
        @ (ustr ''in/b.json'', Some (JObj [(ustr ''other'', JInt 1)]))
        # [(ustr ''in/c.json'', Some (scenario_3D a_structure))])) = 1
   \<and> makePOSCARs3D_main env_ok args_default
       ([(ustr ''in/a.json'', Some (scenario_3D a_structure))]
        @ (ustr ''in/b.json'', Some (JObj [(ustr ''other'', JInt 1)]))
        # [(ustr ''in/c.json'', Some (scenario_3D a_structure))])
     = makePOSCARs3D_main env_ok args_default
       ([(ustr ''in/a.json'', Some (scenario_3D a_structure))]
        @ [(ustr ''in/b.json'', Some (JObj [(ustr ''other'', JInt 1)]))])
   \<and> exit_status (writeIDPROP3D_main env_ok args_default
       ([(ustr ''in/a.json'', Some (scenario_3D a_structure))]
        @ (ustr ''in/b.json'', Some (JObj [(ustr ''other'', JInt 1)]))
        # [(ustr ''in/c.json'', Some (scenario_3D a_structure))])) = 1
   \<and> csv_rows (final_state (writeIDPROP3D_main env_ok args_default
       ([(ustr ''in/a.json'', Some (scenario_3D a_structure))]
        @ (ustr ''in/b.json'', Some (JObj [(ustr ''other'', JInt 1)]))
        # [(ustr ''in/c.json'', Some (scenario_3D a_structure))])))
     = [(ustr ''POSCAR__jsonNum_0_entryNum1_mp-1.vasp'', JFloat (4 / 5))]"
proof -
  have absent: "no_entries (JObj [(ustr ''other'', JInt 1)])"
    by code_simp
  have rows: "csv_rows (final_state (writeIDPROP3D_main env_ok args_default
       ([(ustr ''in/a.json'', Some (scenario_3D a_structure))]
        @ (ustr ''in/b.json'', Some (JObj [(ustr ''other'', JInt 1)]))
        # [(ustr ''in/c.json'', Some (scenario_3D a_structure))])))
     = [(ustr ''POSCAR__jsonNum_0_entryNum1_mp-1.vasp'', JFloat (4 / 5))]"
    by code_simp
  from missing_entries_aborts_batch_3D [OF absent, of env_ok args_default
      "[(ustr ''in/a.json'', Some (scenario_3D a_structure))]" "ustr ''in/b.json''"
      "[(ustr ''in/c.json'', Some (scenario_3D a_structure))]"] rows
  show ?thesis by blast
qed

section \<open>Exit status\<close>




section \<open>The end-to-end scenario of Schema B\<close>

lemma scenario_name:
  "makePOSCARs3D_filename uni (ustr ''POSCAR_'') 0 (Suc 0)
      (JObj [(ustr ''data'',
              JObj [(ustr ''mat_id'', JStr (ustr ''mp-1'')),
                    (ustr ''band_gap_dir'', JFloat (6 / 5)),
                    (ustr ''band_gap_ind'', JFloat (4 / 5))]),
             (ustr ''structure'', structure)])
    = Inr (ustr ''POSCAR__jsonNum_0_entryNum1_mp-1.vasp'')"
  by (simp add: makePOSCARs3D_filename_def ustr_def sanitize_filename_def sanitize_char_def
      isalnum_def latin1_isalnum_def str_nat.simps)

lemma scenario_label:
  "band_gap_label
      (JObj [(ustr ''data'',
              JObj [(ustr ''mat_id'', JStr (ustr ''mp-1'')),
                    (ustr ''band_gap_dir'', JFloat (6 / 5)),
                    (ustr ''band_gap_ind'', JFloat (4 / 5))]),
             (ustr ''structure'', structure)])
    = Inr (JFloat (4 / 5))"
  by (simp add: band_gap_label_def ustr_def py_min_def)

text \<open>
  C6. For the document of the scenario, with a structure that pymatgen accepts and
  writes, the prefix \<open>POSCAR_\<close> and the file at index 0, the geometry emitter writes
  \<open>POSCAR__jsonNum_0_entryNum1_mp-1.vasp\<close> in the output directory and nothing else, and
  the label emitter writes the single row \<open>(POSCAR__jsonNum_0_entryNum1_mp-1.vasp, 0.8)\<close>
  and skips nothing; both exit with status zero.
\<close>

theorem end_to_end_3D:
  assumes "truthy structure"
    and "from_dict env structure = Some st"
    and "to_poscar env st (path_join (output_dir a) (ustr ''POSCAR__jsonNum_0_entryNum1_mp-1.vasp''))"
    and "exists_output_dir env \<or> makedirs_ok env"
    and "writerow_ok env (ustr ''POSCAR__jsonNum_0_entryNum1_mp-1.vasp'') (JFloat (4 / 5))"
    and "filename_prefix a = ustr ''POSCAR_''"
  shows "exit_status (makePOSCARs3D_main env a [(p, Some (scenario_3D structure))]) = 0
     \<and> poscar_files (final_state (makePOSCARs3D_main env a [(p, Some (scenario_3D structure))]))
        = [path_join (output_dir a) (ustr ''POSCAR__jsonNum_0_entryNum1_mp-1.vasp'')]
     \<and> exit_status (writeIDPROP3D_main env a [(p, Some (scenario_3D structure))]) = 0
     \<and> csv_rows (final_state (writeIDPROP3D_main env a [(p, Some (scenario_3D structure))]))
        = [(ustr ''POSCAR__jsonNum_0_entryNum1_mp-1.vasp'', JFloat (4 / 5))]
     \<and> skipped (final_state (writeIDPROP3D_main env a [(p, Some (scenario_3D structure))])) = 0"
proof -
  let ?entry = "JObj [(ustr ''data'',
              JObj [(ustr ''mat_id'', JStr (ustr ''mp-1'')),
                    (ustr ''band_gap_dir'', JFloat (6 / 5)),
                    (ustr ''band_gap_ind'', JFloat (4 / 5))]),
             (ustr ''structure'', structure)]"
  let ?name = "ustr ''POSCAR__jsonNum_0_entryNum1_mp-1.vasp''"
  have doc: "py_get (scenario_3D structure) (ustr ''entries'') (JArr []) = Inr (JArr [?entry])"
    by (simp add: scenario_3D_def)
  have sd: "py_get ?entry (ustr ''structure'') JNull = Inr structure"
    by (simp add: ustr_def)
  have name: "makePOSCARs3D_filename (unicode_alnum env) (filename_prefix a) 0 (Suc 0) ?entry
      = Inr ?name"
    by (simp only: assms(6) scenario_name)
  have geom_entry: "makePOSCARs3D_entries env a 0 (Suc 0) [?entry] s
      = Inr (generate_poscar env st (path_join (output_dir a) ?name) s)" for s
    using assms(1,2)
    by (simp only: makePOSCARs3D_entries.simps sd name Let_def sum.case if_not_P
        not_not option.case)
  have label_entry: "writeIDPROP3D_entries env a 0 (Suc 0) [?entry] s
      = Inr (s\<lparr>csv_rows := csv_rows s @ [(?name, JFloat (4 / 5))]\<rparr>)" for s
    using assms(5)
    by (simp only: writeIDPROP3D_entries.simps filename_symmetry_3D name scenario_label
        sum.case if_True)
  have geom: "makePOSCARs3D_main env a [(p, Some (scenario_3D structure))]
     = Inr (generate_poscar env st (path_join (output_dir a) ?name)
              ((completed_marker 0 (start env))\<lparr>dir_exists := True\<rparr>))"
    using assms(4)
    by (auto simp add: makePOSCARs3D_main_def load_json3D_def doc geom_entry
        create_output_directory_def start_def completed_marker_def Let_def
        simp del: py_get.simps makePOSCARs3D_entries.simps)
  have label: "writeIDPROP3D_main env a [(p, Some (scenario_3D structure))]
     = Inr ((completed_marker 0 (start env))
             \<lparr>csv_path := Some (ustr ''./id_prop.csv''),
              csv_rows := [(?name, JFloat (4 / 5))],
              skipped := 0,
              marker_files := [ustr ''completed'' @ str_nat 0 @ ustr ''.txt'',
                               ustr ''skipped'' @ str_nat 0 @ ustr ''entries.txt'']\<rparr>)"
    by (simp add: writeIDPROP3D_main_def load_json3D_def doc label_entry
        start_def completed_marker_def Let_def
        del: py_get.simps writeIDPROP3D_entries.simps)
  from geom label assms(3) show ?thesis
    by (simp add: generate_poscar_def completed_marker_def start_def)
qed

theorem end_to_end_3D_witness:
  "exit_status (makePOSCARs3D_main env_ok args_default
       [(ustr ''in/decompressed_000.json'', Some (scenario_3D a_structure))]) = 0
   \<and> poscar_files (final_state (makePOSCARs3D_main env_ok args_default
       [(ustr ''in/decompressed_000.json'', Some (scenario_3D a_structure))]))
      = [path_join (output_dir args_default) (ustr ''POSCAR__jsonNum_0_entryNum1_mp-1.vasp'')]
   \<and> csv_rows (final_state (writeIDPROP3D_main env_ok args_default
       [(ustr ''in/decompressed_000.json'', Some (scenario_3D a_structure))]))
      = [(ustr ''POSCAR__jsonNum_0_entryNum1_mp-1.vasp'', JFloat (4 / 5))]"
proof -
  have "truthy a_structure"
    by (simp add: a_structure_def)
  moreover have "from_dict env_ok a_structure = Some ()"
    by (simp add: env_ok_def)
  moreover have "to_poscar env_ok ()
      (path_join (output_dir args_default) (ustr ''POSCAR__jsonNum_0_entryNum1_mp-1.vasp''))"
    by (simp add: env_ok_def)
  moreover have "exists_output_dir env_ok \<or> makedirs_ok env_ok"
    by (simp add: env_ok_def)
  moreover have "writerow_ok env_ok (ustr ''POSCAR__jsonNum_0_entryNum1_mp-1.vasp'')
      (JFloat (4 / 5))"
    by (simp add: env_ok_def)
  moreover have "filename_prefix args_default = ustr ''POSCAR_''"
    by (simp add: args_default_def)
  ultimately show ?thesis
    using end_to_end_3D [of a_structure env_ok "()" args_default "ustr ''in/decompressed_000.json''"]
    by blast
qed

section \<open>Label rows and the skip counter of Schema B\<close>

text \<open>
  C7. On Schema B entries the loop of the label emitter writes exactly the rows of the
  specification, one for each entry that has both band-gap keys, labelled with the
  smaller of the two values, and adds to \<open>skipped\<close> the number of entries that miss a
  key; rows and skipped entries together are all the entries. For a batch of one file
  the CSV and the counter of the whole run are these rows and this number.
\<close>

theorem band_gap_rows_and_skip_count:
  assumes "list_all schemaB_entry entries" and "\<forall>name label. writerow_ok env name label"
  shows "writeIDPROP3D_entries env a index idx entries s =
           Inr (s\<lparr>csv_rows := csv_rows s
                     @ spec_label_rows (unicode_alnum env) (filename_prefix a) index idx entries,
                   skipped := skipped s + spec_skipped entries\<rparr>)
     \<and> length (spec_label_rows (unicode_alnum env) (filename_prefix a) index idx entries)
         = length (filter (\<lambda>entry. both_band_gaps entry \<noteq> None) entries)
     \<and> length (spec_label_rows (unicode_alnum env) (filename_prefix a) index idx entries)
         + spec_skipped entries = length entries
     \<and> num (min_label x y) = min (num x) (num y)
     \<and> csv_rows (final_state
          (writeIDPROP3D_main env a [(p, Some (JObj [(ustr ''entries'', JArr entries)]))]))
         = spec_label_rows (unicode_alnum env) (filename_prefix a) 0 1 entries
     \<and> skipped (final_state
          (writeIDPROP3D_main env a [(p, Some (JObj [(ustr ''entries'', JArr entries)]))]))
         = spec_skipped entries"
proof -
  note loop = writeIDPROP3D_entries_spec [OF assms, of a index idx s]
  note len = spec_label_rows_length [OF assms(1), of "unicode_alnum env" "filename_prefix a" index idx]
  from len rows_plus_skipped [of entries]
  have total: "length (spec_label_rows (unicode_alnum env) (filename_prefix a) index idx entries)
         + spec_skipped entries = length entries" by simp
  have main: "csv_rows (final_state
          (writeIDPROP3D_main env a [(p, Some (JObj [(ustr ''entries'', JArr entries)]))]))
         = spec_label_rows (unicode_alnum env) (filename_prefix a) 0 1 entries
     \<and> skipped (final_state
          (writeIDPROP3D_main env a [(p, Some (JObj [(ustr ''entries'', JArr entries)]))]))
         = spec_skipped entries"
  proof (cases "entries = []")
    case True
    then show ?thesis
      by (simp add: writeIDPROP3D_main_def load_json3D_def Let_def completed_marker_def
          start_def spec_skipped_def)
  next
    case False
    from writeIDPROP3D_main_single [OF assms False, of a p] show ?thesis by simp
  qed
  from loop len total min_label_num [of x y] main show ?thesis by blast
qed

theorem band_gap_rows_and_skip_count_witness:
  "length (csv_rows (final_state
      (writeIDPROP3D_main env_ok args_default
         [(ustr ''in/decompressed_000.json'',
           Some (JObj [(ustr ''entries'', JArr three_entries)]))]))) = 2
   \<and> skipped (final_state
      (writeIDPROP3D_main env_ok args_default
         [(ustr ''in/decompressed_000.json'',
           Some (JObj [(ustr ''entries'', JArr three_entries)]))])) = 1
   \<and> map snd (csv_rows (final_state
      (writeIDPROP3D_main env_ok args_default
         [(ustr ''in/decompressed_000.json'',
           Some (JObj [(ustr ''entries'', JArr three_entries)]))])))
      = [JFloat (4 / 5), JInt 2]"
proof -
  have shape: "list_all schemaB_entry three_entries"
    by code_simp
  have rows: "\<forall>name label. writerow_ok env_ok name label"
    by (simp add: env_ok_def)
  have spec_rows: "spec_label_rows (unicode_alnum env_ok) (filename_prefix args_default) 0 1
      three_entries
      = [(ustr ''POSCAR__jsonNum_0_entryNum1_mp-1.vasp'', JFloat (4 / 5)),
         (ustr ''POSCAR__jsonNum_0_entryNum3_mp-3.vasp'', JInt 2)]"
    by code_simp
  have spec_skip: "spec_skipped three_entries = 1"
    by code_simp
  from band_gap_rows_and_skip_count [OF shape rows, of args_default 0 1 "start env_ok" JNull JNull
      "ustr ''in/decompressed_000.json''"]
  have "csv_rows (final_state
      (writeIDPROP3D_main env_ok args_default
         [(ustr ''in/decompressed_000.json'',
           Some (JObj [(ustr ''entries'', JArr three_entries)]))]))
      = spec_label_rows (unicode_alnum env_ok) (filename_prefix args_default) 0 1 three_entries"
    and "skipped (final_state
      (writeIDPROP3D_main env_ok args_default
         [(ustr ''in/decompressed_000.json'',
           Some (JObj [(ustr ''entries'', JArr three_entries)]))]))
      = spec_skipped three_entries"
    by blast+
  with spec_rows spec_skip show ?thesis
    by simp
qed

section \<open>Labels that are absent or not numbers\<close>

text \<open>In the 3D label emitter a band gap that is present and \<open>null\<close> makes \<open>min\<close>
  raise TypeError, which the \<open>except KeyError\<close> clause does not catch: the run stops.\<close>

lemma null_band_gap_stops_3D_label_emitter:
  "writeIDPROP3D_main env_ok args_default
     [(ustr ''in/decompressed_000.json'',
       Some (JObj [(ustr ''entries'', JArr [entry_with_null_gap, entry_without_structure])]))]
   = Inl (Uncaught TypeError,
          (start env_ok)\<lparr>csv_path := Some (ustr ''./id_prop.csv''),
                           marker_files := [ustr ''completed0.txt'']\<rparr>)"
  by code_simp

text \<open>
  C8, as amended. A label that is absent disqualifies the record: the 2D label emitter
  writes no row for a step whose energy is missing or \<open>null\<close>, the 3D label emitter none
  for an entry that misses a band-gap key; each counts the record as skipped and goes
  on with the next one. The type of a label that is present is not checked: the 2D
  label emitter writes any energy other than \<open>null\<close>, number or not, as the label of a
  step that has a structure.
\<close>

theorem absent_label_skipped_present_label_written:
  "((map_of kvs (ustr ''energy'') = None \<or> map_of kvs (ustr ''energy'') = Some JNull) \<longrightarrow>
      writeIDPROP2D_steps env base key entry_index step_index (JObj kvs # steps) s
        = writeIDPROP2D_steps env base key entry_index (Suc step_index) steps
            (s\<lparr>skipped := skipped s + 1\<rparr>))
   \<and> (map_of kvs (ustr ''energy'') = Some energy \<and> energy \<noteq> JNull
        \<and> map_of kvs (ustr ''structure'') = Some structure_dict \<and> truthy structure_dict
        \<and> writerow_ok env (writeIDPROP2D_filename base key entry_index step_index) energy \<longrightarrow>
      writeIDPROP2D_steps env base key entry_index step_index (JObj kvs # steps) s
        = writeIDPROP2D_steps env base key entry_index (Suc step_index) steps
            (s\<lparr>csv_rows := csv_rows s
                 @ [(writeIDPROP2D_filename base key entry_index step_index, energy)]\<rparr>))
   \<and> (schemaB_entry entry \<and> both_band_gaps entry = None \<longrightarrow>
      writeIDPROP3D_entries env a index idx (entry # entries) s
        = writeIDPROP3D_entries env a index (Suc idx) entries (s\<lparr>skipped := skipped s + 1\<rparr>))"
proof -
  have absent: "(map_of kvs (ustr ''energy'') = None \<or> map_of kvs (ustr ''energy'') = Some JNull) \<longrightarrow>
      writeIDPROP2D_steps env base key entry_index step_index (JObj kvs # steps) s
        = writeIDPROP2D_steps env base key entry_index (Suc step_index) steps
            (s\<lparr>skipped := skipped s + 1\<rparr>)"
    by auto
  have present: "map_of kvs (ustr ''energy'') = Some energy \<and> energy \<noteq> JNull
        \<and> map_of kvs (ustr ''structure'') = Some structure_dict \<and> truthy structure_dict
        \<and> writerow_ok env (writeIDPROP2D_filename base key entry_index step_index) energy \<longrightarrow>
      writeIDPROP2D_steps env base key entry_index step_index (JObj kvs # steps) s
        = writeIDPROP2D_steps env base key entry_index (Suc step_index) steps
            (s\<lparr>csv_rows := csv_rows s
                 @ [(writeIDPROP2D_filename base key entry_index step_index, energy)]\<rparr>)"
    by (simp add: Let_def)
  have gaps: "schemaB_entry entry \<and> both_band_gaps entry = None \<longrightarrow>
      writeIDPROP3D_entries env a index idx (entry # entries) s
        = writeIDPROP3D_entries env a index (Suc idx) entries (s\<lparr>skipped := skipped s + 1\<rparr>)"
    using writeIDPROP3D_entries_skip [of entry env a index idx entries s] by blast
  from absent present gaps show ?thesis by blast
qed

theorem absent_label_skipped_present_label_written_witness:
  "writeIDPROP2D_steps env_ok (ustr ''sample'') (ustr ''groupA'') 0 0
       (JObj [(ustr ''structure'', a_structure)] # []) (start env_ok)
     = writeIDPROP2D_steps env_ok (ustr ''sample'') (ustr ''groupA'') 0 (Suc 0) []
         ((start env_ok)\<lparr>skipped := skipped (start env_ok) + 1\<rparr>)
   \<and> writeIDPROP2D_steps env_ok (ustr ''sample'') (ustr ''groupA'') 0 0
       (JObj [(ustr ''structure'', a_structure), (ustr ''energy'', JStr (ustr ''high''))] # [])
       (start env_ok)
     = writeIDPROP2D_steps env_ok (ustr ''sample'') (ustr ''groupA'') 0 (Suc 0) []
         ((start env_ok)\<lparr>csv_rows := csv_rows (start env_ok)
             @ [(writeIDPROP2D_filename (ustr ''sample'') (ustr ''groupA'') 0 0,
                 JStr (ustr ''high''))]\<rparr>)
   \<and> writeIDPROP3D_entries env_ok args_default 0 1 (entry_without_indirect_gap # [])
       (start env_ok)
     = writeIDPROP3D_entries env_ok args_default 0 (Suc 1) []
         ((start env_ok)\<lparr>skipped := skipped (start env_ok) + 1\<rparr>)"
proof -
  have no_energy: "map_of [(ustr ''structure'', a_structure)] (ustr ''energy'') = None
      \<or> map_of [(ustr ''structure'', a_structure)] (ustr ''energy'') = Some JNull"
    by (simp add: ustr_def)
  have text_energy:
    "map_of [(ustr ''structure'', a_structure), (ustr ''energy'', JStr (ustr ''high''))]
        (ustr ''energy'') = Some (JStr (ustr ''high''))
     \<and> JStr (ustr ''high'') \<noteq> JNull
     \<and> map_of [(ustr ''structure'', a_structure), (ustr ''energy'', JStr (ustr ''high''))]
        (ustr ''structure'') = Some a_structure
     \<and> truthy a_structure
     \<and> writerow_ok env_ok (writeIDPROP2D_filename (ustr ''sample'') (ustr ''groupA'') 0 0)
          (JStr (ustr ''high''))"
    by (simp add: ustr_def a_structure_def env_ok_def)
  have no_gap: "schemaB_entry entry_without_indirect_gap
      \<and> both_band_gaps entry_without_indirect_gap = None"
    by code_simp
  from absent_label_skipped_present_label_written
         [of "[(ustr ''structure'', a_structure)]" env_ok "ustr ''sample''" "ustr ''groupA''"
             0 0 "[]" "start env_ok"]
       no_energy
  have first: "writeIDPROP2D_steps env_ok (ustr ''sample'') (ustr ''groupA'') 0 0
       (JObj [(ustr ''structure'', a_structure)] # []) (start env_ok)
     = writeIDPROP2D_steps env_ok (ustr ''sample'') (ustr ''groupA'') 0 (Suc 0) []
         ((start env_ok)\<lparr>skipped := skipped (start env_ok) + 1\<rparr>)"
    by blast
  from absent_label_skipped_present_label_written
         [where kvs = "[(ustr ''structure'', a_structure), (ustr ''energy'', JStr (ustr ''high''))]"
            and energy = "JStr (ustr ''high'')" and structure_dict = a_structure
            and env = env_ok and base = "ustr ''sample''" and key = "ustr ''groupA''"
            and entry_index = 0 and step_index = 0 and steps = "[]" and s = "start env_ok"]
       text_energy
  have second: "writeIDPROP2D_steps env_ok (ustr ''sample'') (ustr ''groupA'') 0 0
       (JObj [(ustr ''structure'', a_structure), (ustr ''energy'', JStr (ustr ''high''))] # [])
       (start env_ok)
     = writeIDPROP2D_steps env_ok (ustr ''sample'') (ustr ''groupA'') 0 (Suc 0) []
         ((start env_ok)\<lparr>csv_rows := csv_rows (start env_ok)
             @ [(writeIDPROP2D_filename (ustr ''sample'') (ustr ''groupA'') 0 0,
                 JStr (ustr ''high''))]\<rparr>)"
    by blast
  from absent_label_skipped_present_label_written
         [where entry = entry_without_indirect_gap and env = env_ok and a = args_default
            and index = 0 and idx = 1 and entries = "[]" and s = "start env_ok"]
       no_gap
  have third: "writeIDPROP3D_entries env_ok args_default 0 1 (entry_without_indirect_gap # [])
       (start env_ok)
     = writeIDPROP3D_entries env_ok args_default 0 (Suc 1) []
         ((start env_ok)\<lparr>skipped := skipped (start env_ok) + 1\<rparr>)"
    by blast
  from first second third show ?thesis by blast
qed

text \<open>
  C8 as stated fails: a step whose energy is the string \<open>"high"\<close> is not disqualified;
  the 2D label emitter writes the row and counts nothing as skipped.
\<close>

theorem text_energy_written_2D:
  "csv_rows (final_state
       (writeIDPROP2D_main env_ok io_args_default
          [(ustr ''in/sample.json'', Some sample_2D_text_energy)]))
     = [(ustr ''POSCAR_sample_groupA_entry0_step0.vasp'', JStr (ustr ''high''))]
   \<and> skipped (final_state
       (writeIDPROP2D_main env_ok io_args_default
          [(ustr ''in/sample.json'', Some sample_2D_text_energy)])) = 0"
  by code_simp

section \<open>Where the 3D label emitter writes its CSV\<close>

text \<open>
  C9. The 3D label emitter opens its CSV at \<open>./id_prop.csv\<close> in every run, and the value
  of \<open>-o\<close> changes nothing in the result of a run.
\<close>

theorem csv_written_to_fixed_path_3D:
  "csv_path (final_state (writeIDPROP3D_main env a json_files)) = Some (ustr ''./id_prop.csv'')
   \<and> writeIDPROP3D_main env (a\<lparr>output_dir := d\<rparr>) json_files
     = writeIDPROP3D_main env a json_files"
proof -
  let ?s = "(start env)\<lparr>csv_path := Some (ustr ''./id_prop.csv''), csv_rows := [], skipped := 0\<rparr>"
  have "csv_path (final_state (writeIDPROP3D_files env a 0 json_files ?s))
      = Some (ustr ''./id_prop.csv'')"
    by (simp add: writeIDPROP3D_files_csv_path)
  then have path: "csv_path (final_state (writeIDPROP3D_main env a json_files))
      = Some (ustr ''./id_prop.csv'')"
    by (cases "writeIDPROP3D_files env a 0 json_files ?s")
       (simp_all add: writeIDPROP3D_main_def Let_def)
  have "writeIDPROP3D_main env (a\<lparr>output_dir := d\<rparr>) json_files
     = writeIDPROP3D_main env a json_files"
    by (simp add: writeIDPROP3D_main_def writeIDPROP3D_files_output)
  with path show ?thesis by simp
qed

theorem csv_written_to_fixed_path_3D_witness:
  "csv_path (final_state (writeIDPROP3D_main env_ok args_default
      [(ustr ''in/decompressed_000.json'', Some (scenario_3D a_structure))]))
     = Some (ustr ''./id_prop.csv'')
   \<and> writeIDPROP3D_main env_ok (args_default\<lparr>output_dir := ustr ''out/labels''\<rparr>)
      [(ustr ''in/decompressed_000.json'', Some (scenario_3D a_structure))]
     = writeIDPROP3D_main env_ok args_default
      [(ustr ''in/decompressed_000.json'', Some (scenario_3D a_structure))]"
  by (rule csv_written_to_fixed_path_3D)

section \<open>Label rows without a geometry file\<close>

text \<open>
  C10. A Schema B entry with both band-gap keys and no \<open>structure\<close> is passed over by
  the geometry emitter and given a row by the label emitter; for a batch of one file
  holding one such entry the CSV names a file while no POSCAR file is written, so the
  file names of the CSV are not among the geometry files.
\<close>

theorem label_row_without_geometry_file_3D:
  assumes "schemaB_entry entry" and "both_band_gaps entry = Some (x, y)"
    and "py_get entry (ustr ''structure'') JNull = Inr sd" and "\<not> truthy sd"
    and "\<forall>name label. writerow_ok env name label"
  shows "makePOSCARs3D_entries env a index idx (entry # entries) s
           = makePOSCARs3D_entries env a index (Suc idx) entries s
     \<and> (\<exists>name. writeIDPROP3D_filename (unicode_alnum env) (filename_prefix a) index idx entry
                  = Inr name
           \<and> writeIDPROP3D_entries env a index idx (entry # entries) s
             = writeIDPROP3D_entries env a index (Suc idx) entries
                 (s\<lparr>csv_rows := csv_rows s @ [(name, min_label x y)]\<rparr>))
     \<and> poscar_files (final_state
          (makePOSCARs3D_main env a [(p, Some (JObj [(ustr ''entries'', JArr [entry])]))])) = []
     \<and> (\<exists>name. csv_rows (final_state
          (writeIDPROP3D_main env a [(p, Some (JObj [(ustr ''entries'', JArr [entry])]))]))
            = [(name, min_label x y)])
     \<and> \<not> fst ` set (csv_rows (final_state
            (writeIDPROP3D_main env a [(p, Some (JObj [(ustr ''entries'', JArr [entry])]))])))
         \<subseteq> basename ` set (poscar_files (final_state
            (makePOSCARs3D_main env a [(p, Some (JObj [(ustr ''entries'', JArr [entry])]))])))"
proof -
  note geom_step = makePOSCARs3D_entries_no_structure [OF assms(3,4)]
  have label_step: "\<exists>name. writeIDPROP3D_filename (unicode_alnum env) (filename_prefix a)
                  index idx entry = Inr name
           \<and> writeIDPROP3D_entries env a index idx (entry # entries) s
             = writeIDPROP3D_entries env a index (Suc idx) entries
                 (s\<lparr>csv_rows := csv_rows s @ [(name, min_label x y)]\<rparr>)"
  proof -
    from writeIDPROP3D_filename_ok [OF assms(1)]
    obtain name where name:
      "writeIDPROP3D_filename (unicode_alnum env) (filename_prefix a) index idx entry = Inr name"
      by blast
    from assms(5) have "writerow_ok env name (min_label x y)" by simp
    from writeIDPROP3D_entries_row [OF assms(1,2) name this] name show ?thesis by blast
  qed
  have geom_main: "poscar_files (final_state
          (makePOSCARs3D_main env a [(p, Some (JObj [(ustr ''entries'', JArr [entry])]))])) = []"
    by (simp add: makePOSCARs3D_main_def load_json3D_def create_output_directory_def
        completed_marker_def start_def geom_step Let_def
        del: makePOSCARs3D_entries.simps(2))
  have label_main: "\<exists>name. csv_rows (final_state
          (writeIDPROP3D_main env a [(p, Some (JObj [(ustr ''entries'', JArr [entry])]))]))
            = [(name, min_label x y)]"
  proof -
    from writeIDPROP3D_filename_ok [OF assms(1)]
    obtain name where name:
      "writeIDPROP3D_filename (unicode_alnum env) (filename_prefix a) 0 1 entry = Inr name"
      by blast
    have "list_all schemaB_entry [entry]" using assms(1) by simp
    from writeIDPROP3D_main_single [OF this assms(5), of a p] name assms(2)
    show ?thesis by (simp add: start_def)
  qed
  from label_main geom_main
  have "\<not> fst ` set (csv_rows (final_state
            (writeIDPROP3D_main env a [(p, Some (JObj [(ustr ''entries'', JArr [entry])]))])))
         \<subseteq> basename ` set (poscar_files (final_state
            (makePOSCARs3D_main env a [(p, Some (JObj [(ustr ''entries'', JArr [entry])]))])))"
    by auto
  with geom_step label_step geom_main label_main show ?thesis by blast
qed

theorem label_row_without_geometry_file_3D_witness:
  "poscar_files (final_state
      (makePOSCARs3D_main env_ok args_default
         [(ustr ''in/decompressed_000.json'',
           Some (JObj [(ustr ''entries'', JArr [entry_without_structure])]))])) = []
   \<and> csv_rows (final_state
      (writeIDPROP3D_main env_ok args_default
         [(ustr ''in/decompressed_000.json'',
           Some (JObj [(ustr ''entries'', JArr [entry_without_structure])]))]))
     = [(ustr ''POSCAR__jsonNum_0_entryNum1_mp-1.vasp'', JFloat (4 / 5))]"
proof -
  have shape: "schemaB_entry entry_without_structure"
    by code_simp
  have gaps: "both_band_gaps entry_without_structure = Some (JFloat (6 / 5), JFloat (4 / 5))"
    by code_simp
  have absent: "py_get entry_without_structure (ustr ''structure'') JNull = Inr JNull"
    by code_simp
  have falsy: "\<not> truthy JNull"
    by simp
  have rows: "\<forall>name label. writerow_ok env_ok name label"
    by (simp add: env_ok_def)
  have written: "csv_rows (final_state
      (writeIDPROP3D_main env_ok args_default
         [(ustr ''in/decompressed_000.json'',
           Some (JObj [(ustr ''entries'', JArr [entry_without_structure])]))]))
     = [(ustr ''POSCAR__jsonNum_0_entryNum1_mp-1.vasp'', JFloat (4 / 5))]"
    by code_simp
  from label_row_without_geometry_file_3D [OF shape gaps absent falsy rows,
      of args_default 0 1 "[]" "start env_ok" "ustr ''in/decompressed_000.json''"] written
  show ?thesis by blast
qed

end
